theory Spec2Isabelle
  imports Complex_Main
begin

section \<open>Values shared by the selectors and the recognizer\<close>

subsection \<open>Python floats\<close>

text \<open>
  Scores are Python floats. The selection logic compares them, starts from
  \<^verbatim>\<open>float("inf")\<close> or \<^verbatim>\<open>float("-inf")\<close> and can meet NaN (\<^verbatim>\<open>np.mean([])\<close>), so a float is
  a finite number, one of the two infinities, or NaN. Comparison is exact and follows
  IEEE 754. An arithmetic operation on two finite floats computes the exact result and
  rounds it to a double, which overflows to an infinity when it is too large: the rounding
  is the argument \<open>rnd\<close> of the operations below. It is taken from the library record
  further down, and nothing is assumed about it. Signed zeros are not modelled.
\<close>

datatype pyfloat = Fin real | PosInf | NegInf | NaN

fun fless :: "pyfloat \<Rightarrow> pyfloat \<Rightarrow> bool" where
  "fless NaN _ = False"
| "fless _ NaN = False"
| "fless (Fin a) (Fin b) = (a < b)"
| "fless (Fin _) PosInf = True"
| "fless (Fin _) NegInf = False"
| "fless PosInf _ = False"
| "fless NegInf NegInf = False"
| "fless NegInf _ = True"

definition fgreater :: "pyfloat \<Rightarrow> pyfloat \<Rightarrow> bool" where
  "fgreater a b = fless b a"

fun fneg :: "pyfloat \<Rightarrow> pyfloat" where
  "fneg (Fin a) = Fin (- a)"
| "fneg PosInf = NegInf"
| "fneg NegInf = PosInf"
| "fneg NaN = NaN"

fun fadd :: "(real \<Rightarrow> pyfloat) \<Rightarrow> pyfloat \<Rightarrow> pyfloat \<Rightarrow> pyfloat" where
  "fadd rnd NaN _ = NaN"
| "fadd rnd _ NaN = NaN"
| "fadd rnd (Fin a) (Fin b) = rnd (a + b)"
| "fadd rnd (Fin _) PosInf = PosInf"
| "fadd rnd (Fin _) NegInf = NegInf"
| "fadd rnd PosInf NegInf = NaN"
| "fadd rnd PosInf _ = PosInf"
| "fadd rnd NegInf PosInf = NaN"
| "fadd rnd NegInf _ = NegInf"

definition fsub :: "(real \<Rightarrow> pyfloat) \<Rightarrow> pyfloat \<Rightarrow> pyfloat \<Rightarrow> pyfloat" where
  "fsub rnd a b = fadd rnd a (fneg b)"

fun fmul :: "(real \<Rightarrow> pyfloat) \<Rightarrow> pyfloat \<Rightarrow> pyfloat \<Rightarrow> pyfloat" where
  "fmul rnd NaN _ = NaN"
| "fmul rnd _ NaN = NaN"
| "fmul rnd (Fin a) (Fin b) = rnd (a * b)"
| "fmul rnd (Fin a) PosInf = (if a = 0 then NaN else if 0 < a then PosInf else NegInf)"
| "fmul rnd (Fin a) NegInf = (if a = 0 then NaN else if 0 < a then NegInf else PosInf)"
| "fmul rnd PosInf (Fin b) = (if b = 0 then NaN else if 0 < b then PosInf else NegInf)"
| "fmul rnd NegInf (Fin b) = (if b = 0 then NaN else if 0 < b then NegInf else PosInf)"
| "fmul rnd PosInf PosInf = PosInf"
| "fmul rnd PosInf NegInf = NegInf"
| "fmul rnd NegInf PosInf = NegInf"
| "fmul rnd NegInf NegInf = PosInf"

subsection \<open>Exceptions\<close>

datatype exn = AttributeError | IndexError | KeyError | ValueError | OverflowError | HmmError

subsection \<open>The warnings filter\<close>

text \<open>
  An entry of the interpreter's list of filters is the tuple of action, message pattern,
  category, module pattern and line number. \<^verbatim>\<open>warnings.filterwarnings(action, category=c)\<close>
  leaves the message and the module at their default, the empty string, which gives the
  entry \<^verbatim>\<open>(action, None, c, None, 0)\<close>; with \<^verbatim>\<open>append=False\<close> an equal entry is removed from
  the list if there is one, and the entry is inserted at the front.
\<close>

record warning_filter =
  wf_action :: string
  wf_message :: "string option"
  wf_category :: string
  wf_module :: "string option"
  wf_lineno :: int

definition filterwarnings :: "string \<Rightarrow> string \<Rightarrow> warning_filter list \<Rightarrow> warning_filter list" where
  "filterwarnings action category filters =
     (let item = \<lparr>wf_action = action, wf_message = None, wf_category = category,
                   wf_module = None, wf_lineno = 0\<rparr>
      in item # remove1 item filters)"

subsection \<open>Data and the hmmlearn model\<close>

text \<open>
  A feature matrix is a list of frames, a frame a list of feature values; a sequence is
  a list of frames.
\<close>

type_synonym frame = "real list"
type_synonym featmat = "frame list"

text \<open>
  \<^verbatim>\<open>GaussianHMM(n_components=.., covariance_type=.., n_iter=.., random_state=..)\<close> builds
  the estimator with these attributes; \<^verbatim>\<open>fit\<close> returns the same object with the trained
  parameters \<open>fitted\<close>.
\<close>

record 'p GaussianHMM =
  n_components :: int
  covariance_type :: string
  n_iter :: int
  hmm_random_state :: int
  fitted :: 'p

text \<open>
  What the code takes from outside is a parameter of every function below:
  \<^item> of hmmlearn, training (\<^verbatim>\<open>fit\<close>, given the constructor's arguments and the data) and
    \<^verbatim>\<open>score\<close>, which both can raise;
  \<^item> of the interpreter, the rounding of double arithmetic, and the conversion of an
    integer to a float, which raises OverflowError when the integer is too large;
  \<^item> of numpy, \<^verbatim>\<open>np.log\<close> of a positive count and \<^verbatim>\<open>np.mean\<close> of a list that is not
    empty, with numpy's own rounding and order of summation.
\<close>

record 'p library =
  hmm_train :: "int \<Rightarrow> string \<Rightarrow> int \<Rightarrow> int \<Rightarrow> featmat \<Rightarrow> int list \<Rightarrow> exn + 'p"
  hmm_score :: "'p GaussianHMM \<Rightarrow> featmat \<Rightarrow> int list \<Rightarrow> exn + pyfloat"
  float_round :: "real \<Rightarrow> pyfloat"
  float_of_int :: "int \<Rightarrow> exn + pyfloat"
  np_log_pos :: "nat \<Rightarrow> pyfloat"
  np_mean_nonempty :: "pyfloat list \<Rightarrow> pyfloat"

text \<open>
  \<^verbatim>\<open>np.log(n)\<close> for a length \<open>n\<close>: the logarithm of zero is minus infinity (numpy warns
  and returns it).
\<close>

definition np_log :: "'p library \<Rightarrow> nat \<Rightarrow> pyfloat" where
  "np_log lib n = (if n = 0 then NegInf else np_log_pos lib n)"

text \<open>
  \<^verbatim>\<open>np.mean(xs)\<close> for a list of floats: of the empty list it is NaN (numpy warns and
  returns it).
\<close>

definition np_mean :: "'p library \<Rightarrow> pyfloat list \<Rightarrow> pyfloat" where
  "np_mean lib xs = (if xs = [] then NaN else np_mean_nonempty lib xs)"

definition GaussianHMM_fit ::
  "'p library \<Rightarrow> int \<Rightarrow> string \<Rightarrow> int \<Rightarrow> int \<Rightarrow> featmat \<Rightarrow> int list \<Rightarrow> exn + 'p GaussianHMM" where
  "GaussianHMM_fit lib n cov iters seed X lengths =
     (case hmm_train lib n cov iters seed X lengths of
        Inl e \<Rightarrow> Inl e
      | Inr p \<Rightarrow> Inr \<lparr>n_components = n, covariance_type = cov, n_iter = iters,
                     hmm_random_state = seed, fitted = p\<rparr>)"

text \<open>
  \<^verbatim>\<open>model.score(X, lengths)\<close> where \<open>model\<close> may be \<^verbatim>\<open>None\<close>: calling a method of
  \<^verbatim>\<open>None\<close> raises AttributeError.
\<close>

definition model_score ::
  "'p library \<Rightarrow> 'p GaussianHMM option \<Rightarrow> featmat \<Rightarrow> int list \<Rightarrow> exn + pyfloat" where
  "model_score lib model X lengths =
     (case model of None \<Rightarrow> Inl AttributeError | Some m \<Rightarrow> hmm_score lib m X lengths)"

section \<open>my_recognizer.py\<close>

text \<open>
  The inner loop of \<^verbatim>\<open>recognize\<close> over \<^verbatim>\<open>models.items()\<close>, for one test item. The state
  is \<^verbatim>\<open>word_probabilities\<close>, \<^verbatim>\<open>best_score\<close> and \<^verbatim>\<open>best_guess\<close>.
\<close>

fun recognize_words ::
  "'p library \<Rightarrow> (string \<times> 'p GaussianHMM option) list \<Rightarrow> featmat \<Rightarrow> int list \<Rightarrow>
   (string \<rightharpoonup> pyfloat) \<Rightarrow> pyfloat \<Rightarrow> string option \<Rightarrow>
   (string \<rightharpoonup> pyfloat) \<times> pyfloat \<times> string option" where
  "recognize_words lib [] X lengths word_probabilities best_score best_guess =
     (word_probabilities, best_score, best_guess)"
| "recognize_words lib ((train_word, model) # rest) X lengths word_probabilities best_score best_guess =
     (case model_score lib model X lengths of
        Inr score \<Rightarrow>
          (if fgreater score best_score
           then recognize_words lib rest X lengths (word_probabilities(train_word \<mapsto> score))
                  score (Some train_word)
           else recognize_words lib rest X lengths (word_probabilities(train_word \<mapsto> score))
                  best_score best_guess)
      | Inl e \<Rightarrow>
          recognize_words lib rest X lengths (word_probabilities(train_word \<mapsto> NegInf))
            best_score best_guess)"

text \<open>
  The outer loop over the test items, appending to \<^verbatim>\<open>probabilities\<close> and
  \<^verbatim>\<open>guesses\<close>.
\<close>

fun recognize_items ::
  "'p library \<Rightarrow> (string \<times> 'p GaussianHMM option) list \<Rightarrow> (featmat \<times> int list) list \<Rightarrow>
   (string \<rightharpoonup> pyfloat) list \<Rightarrow> string option list \<Rightarrow>
   (string \<rightharpoonup> pyfloat) list \<times> string option list" where
  "recognize_items lib models [] probabilities guesses = (probabilities, guesses)"
| "recognize_items lib models ((X, lengths) # items) probabilities guesses =
     (case recognize_words lib models X lengths Map.empty NegInf None of
        (word_probabilities, best_score, best_guess) \<Rightarrow>
          recognize_items lib models items
            (probabilities @ [word_probabilities]) (guesses @ [best_guess]))"

text \<open>
  \<^verbatim>\<open>recognize(models, test_set)\<close>. The dictionary \<open>models\<close> is the list of its items in
  iteration order; \<open>test_items\<close> is \<^verbatim>\<open>test_set.get_all_Xlengths().values()\<close>. The call
  starts by changing the warnings filter, so the filter list is passed in and returned.
\<close>

definition recognize ::
  "'p library \<Rightarrow> (string \<times> 'p GaussianHMM option) list \<Rightarrow> (featmat \<times> int list) list \<Rightarrow>
   warning_filter list \<Rightarrow>
   ((string \<rightharpoonup> pyfloat) list \<times> string option list) \<times> warning_filter list" where
  "recognize lib models test_items filters =
     (recognize_items lib models test_items [] [],
      filterwarnings ''ignore'' ''DeprecationWarning'' filters)"

section \<open>my_model_selectors.py\<close>

subsection \<open>ModelSelector\<close>

text \<open>
  The attributes set by \<^verbatim>\<open>ModelSelector.__init__\<close>. The two dictionaries are the lists of
  their items in iteration order. The attributes \<^verbatim>\<open>self.X\<close> and \<^verbatim>\<open>self.lengths\<close> are the
  fields \<open>self_X\<close> and \<open>self_lengths\<close>.
\<close>

record ModelSelector =
  words :: "(string \<times> featmat list) list"
  hwords :: "(string \<times> featmat \<times> int list) list"
  sequences :: "featmat list"
  self_X :: featmat
  self_lengths :: "int list"
  this_word :: string
  n_constant :: int
  min_n_components :: int
  max_n_components :: int
  random_state :: int
  verbose :: bool

text \<open>The constructor: a word missing from either dictionary raises KeyError.\<close>

definition ModelSelector_init ::
  "(string \<times> featmat list) list \<Rightarrow> (string \<times> featmat \<times> int list) list \<Rightarrow> string \<Rightarrow>
   int \<Rightarrow> int \<Rightarrow> int \<Rightarrow> int \<Rightarrow> bool \<Rightarrow> exn + ModelSelector" where
  "ModelSelector_init all_word_sequences all_word_Xlengths word nc mn mx seed verb =
     (case map_of all_word_sequences word of
        None \<Rightarrow> Inl KeyError
      | Some seqs \<Rightarrow>
          (case map_of all_word_Xlengths word of
             None \<Rightarrow> Inl KeyError
           | Some (X, lengths) \<Rightarrow>
               Inr \<lparr>words = all_word_sequences, hwords = all_word_Xlengths, sequences = seqs,
                    self_X = X, self_lengths = lengths, this_word = word, n_constant = nc,
                    min_n_components = mn, max_n_components = mx, random_state = seed,
                    verbose = verb\<rparr>))"

text \<open>\<^verbatim>\<open>ModelSelector.select\<close> of the base class returns \<^verbatim>\<open>None\<close>.\<close>

definition select_ModelSelector :: "'p library \<Rightarrow> ModelSelector \<Rightarrow> 'p GaussianHMM option" where
  "select_ModelSelector lib s = None"

text \<open>
  \<^verbatim>\<open>base_model\<close>: every exception of the fit is caught and the result is \<^verbatim>\<open>None\<close>. The
  value returned is modelled; the call also installs the DeprecationWarning filter and
  prints one line when \<open>verbose\<close> is set, which changes no returned value. The same holds
  for the \<^verbatim>\<open>select\<close> methods below.
\<close>

definition base_model :: "'p library \<Rightarrow> ModelSelector \<Rightarrow> int \<Rightarrow> 'p GaussianHMM option" where
  "base_model lib s num_states =
     (case GaussianHMM_fit lib num_states ''diag'' 1000 (random_state s) (self_X s) (self_lengths s) of
        Inr hmm_model \<Rightarrow> Some hmm_model
      | Inl e \<Rightarrow> None)"

text \<open>Python's \<^verbatim>\<open>range(a, b)\<close> on integers.\<close>

definition py_range :: "int \<Rightarrow> int \<Rightarrow> int list" where
  "py_range a b = [a..b - 1]"

subsection \<open>SelectorConstant\<close>

definition select_Constant :: "'p library \<Rightarrow> ModelSelector \<Rightarrow> 'p GaussianHMM option" where
  "select_Constant lib s = base_model lib s (n_constant s)"

subsection \<open>SelectorBIC\<close>

text \<open>
  \<^verbatim>\<open>SelectorBIC.score\<close>. The model may be \<^verbatim>\<open>None\<close>, and then \<^verbatim>\<open>model.score\<close> raises;
  \<^verbatim>\<open>self.X[0]\<close> raises IndexError on an empty matrix; \<open>p\<close> is an integer, which the
  product with the float \<open>logN\<close> converts to a float.
\<close>

definition BIC_score ::
  "'p library \<Rightarrow> ModelSelector \<Rightarrow> int \<Rightarrow> exn + (pyfloat \<times> 'p GaussianHMM option)" where
  "BIC_score lib s num_states =
     (let model = base_model lib s num_states in
      case model_score lib model (self_X s) (self_lengths s) of
        Inl e \<Rightarrow> Inl e
      | Inr logL \<Rightarrow>
          (let logN = np_log lib (length (self_X s)) in
           case self_X s of
             [] \<Rightarrow> Inl IndexError
           | x0 # _ \<Rightarrow>
               (let p = num_states ^ 2 + 2 * (int (length x0) * num_states) - 1 in
                case float_of_int lib p of
                  Inl e \<Rightarrow> Inl e
                | Inr pf \<Rightarrow>
                    Inr (fadd (float_round lib) (fmul (float_round lib) (Fin (- 2)) logL)
                           (fmul (float_round lib) pf logN), model))))"

text \<open>The loop of \<^verbatim>\<open>SelectorBIC.select\<close>; an exception leaves the loop.\<close>

fun BIC_loop ::
  "'p library \<Rightarrow> ModelSelector \<Rightarrow> int list \<Rightarrow> pyfloat \<Rightarrow> 'p GaussianHMM option \<Rightarrow>
   exn + 'p GaussianHMM option" where
  "BIC_loop lib s [] best_score best_model = Inr best_model"
| "BIC_loop lib s (num_states # rest) best_score best_model =
     (case BIC_score lib s num_states of
        Inl e \<Rightarrow> Inl e
      | Inr (score, model) \<Rightarrow>
          (if fless score best_score then BIC_loop lib s rest score model
           else BIC_loop lib s rest best_score best_model))"

text \<open>The candidates of the loop: \<^verbatim>\<open>range(self.min_n_components, self.max_n_components+1)\<close>.\<close>

definition BIC_candidates :: "ModelSelector \<Rightarrow> int list" where
  "BIC_candidates s = py_range (min_n_components s) (max_n_components s + 1)"

definition select_BIC :: "'p library \<Rightarrow> ModelSelector \<Rightarrow> 'p GaussianHMM option" where
  "select_BIC lib s =
     (case BIC_loop lib s (BIC_candidates s) PosInf None of
        Inr best_model \<Rightarrow> best_model
      | Inl e \<Rightarrow> base_model lib s (n_constant s))"

subsection \<open>SelectorDIC\<close>

text \<open>
  The inner loop over \<^verbatim>\<open>self.hwords.items()\<close>, which scores the candidate on the data of
  every word but this one and appends to \<^verbatim>\<open>mean_score_array\<close>.
\<close>

fun DIC_others ::
  "'p library \<Rightarrow> string \<Rightarrow> 'p GaussianHMM option \<Rightarrow> (string \<times> featmat \<times> int list) list \<Rightarrow>
   pyfloat list \<Rightarrow> exn + pyfloat list" where
  "DIC_others lib tw model [] mean_score_array = Inr mean_score_array"
| "DIC_others lib tw model ((word, X, lengths) # rest) mean_score_array =
     (if word \<noteq> tw
      then (case model_score lib model X lengths of
              Inl e \<Rightarrow> Inl e
            | Inr v \<Rightarrow> DIC_others lib tw model rest (mean_score_array @ [v]))
      else DIC_others lib tw model rest mean_score_array)"

text \<open>The body of the loop of \<^verbatim>\<open>SelectorDIC.select\<close> up to the comparison.\<close>

definition DIC_score ::
  "'p library \<Rightarrow> ModelSelector \<Rightarrow> int \<Rightarrow> exn + (pyfloat \<times> 'p GaussianHMM option)" where
  "DIC_score lib s num_states =
     (let model = base_model lib s num_states in
      case DIC_others lib (this_word s) model (hwords s) [] of
        Inl e \<Rightarrow> Inl e
      | Inr mean_score_array \<Rightarrow>
          (let mean = np_mean lib mean_score_array in
           case model_score lib model (self_X s) (self_lengths s) of
             Inl e \<Rightarrow> Inl e
           | Inr v \<Rightarrow> Inr (fsub (float_round lib) v mean, model)))"

fun DIC_loop ::
  "'p library \<Rightarrow> ModelSelector \<Rightarrow> int list \<Rightarrow> pyfloat \<Rightarrow> 'p GaussianHMM option \<Rightarrow>
   exn + 'p GaussianHMM option" where
  "DIC_loop lib s [] best_score best_model = Inr best_model"
| "DIC_loop lib s (num_states # rest) best_score best_model =
     (case DIC_score lib s num_states of
        Inl e \<Rightarrow> Inl e
      | Inr (score, model) \<Rightarrow>
          (if fgreater score best_score then DIC_loop lib s rest score model
           else DIC_loop lib s rest best_score best_model))"

text \<open>The candidates of the loop: \<^verbatim>\<open>range(self.min_n_components, self.max_n_components)\<close>.\<close>

definition DIC_candidates :: "ModelSelector \<Rightarrow> int list" where
  "DIC_candidates s = py_range (min_n_components s) (max_n_components s)"

definition select_DIC :: "'p library \<Rightarrow> ModelSelector \<Rightarrow> 'p GaussianHMM option" where
  "select_DIC lib s =
     (case DIC_loop lib s (DIC_candidates s) NegInf None of
        Inr best_model \<Rightarrow> best_model
      | Inl e \<Rightarrow> base_model lib s (n_constant s))"

subsection \<open>SelectorCV\<close>

text \<open>
  \<^verbatim>\<open>KFold(n_splits=2).split(sequences)\<close> of scikit-learn, without shuffling: it raises
  ValueError for fewer than two samples; otherwise the first fold holds the first
  \<open>n div 2 + n mod 2\<close> indices and the second the rest, and each pair is (train, test).
\<close>

definition KFold_split :: "nat \<Rightarrow> exn + (nat list \<times> nat list) list" where
  "KFold_split n =
     (if n < 2 then Inl ValueError
      else (let k = n div 2 + n mod 2 in Inr [([k..<n], [0..<k]), ([0..<k], [k..<n])]))"

text \<open>
  Modelled from the spec: \<^verbatim>\<open>combine_sequences\<close> of \<^verbatim>\<open>asl_utils\<close>, which is not among the
  source files: given fold indices and a word's sequences it gives the concatenated
  feature matrix and the list of the chosen sequences' lengths. An index out of range
  raises IndexError.
\<close>

definition combine_sequences :: "nat list \<Rightarrow> featmat list \<Rightarrow> exn + (featmat \<times> int list)" where
  "combine_sequences split_index_list seqs =
     (if list_all (\<lambda>idx. idx < length seqs) split_index_list
      then Inr (concat (map (\<lambda>idx. seqs ! idx) split_index_list),
                map (\<lambda>idx. int (length (seqs ! idx))) split_index_list)
      else Inl IndexError)"

text \<open>The loop of \<^verbatim>\<open>SelectorCV.score\<close> over the folds.\<close>

fun CV_folds ::
  "'p library \<Rightarrow> ModelSelector \<Rightarrow> int \<Rightarrow> (nat list \<times> nat list) list \<Rightarrow> pyfloat list \<Rightarrow>
   exn + pyfloat list" where
  "CV_folds lib s num_states [] scores = Inr scores"
| "CV_folds lib s num_states ((cv_train_idx, cv_test_idx) # rest) scores =
     (case combine_sequences cv_train_idx (sequences s) of
        Inl e \<Rightarrow> Inl e
      | Inr (X_train, l_train) \<Rightarrow>
          (case GaussianHMM_fit lib num_states ''diag'' 1000 (random_state s) X_train l_train of
             Inl e \<Rightarrow> Inl e
           | Inr model \<Rightarrow>
               (case combine_sequences cv_test_idx (sequences s) of
                  Inl e \<Rightarrow> Inl e
                | Inr (X_test, L_test) \<Rightarrow>
                    (case hmm_score lib model X_test L_test of
                       Inl e \<Rightarrow> Inl e
                     | Inr v \<Rightarrow> CV_folds lib s num_states rest (scores @ [v])))))"

definition CV_score :: "'p library \<Rightarrow> ModelSelector \<Rightarrow> int \<Rightarrow> exn + pyfloat" where
  "CV_score lib s num_states =
     (case KFold_split (length (sequences s)) of
        Inl e \<Rightarrow> Inl e
      | Inr folds \<Rightarrow>
          (case CV_folds lib s num_states folds [] of
             Inl e \<Rightarrow> Inl e
           | Inr scores \<Rightarrow> Inr (np_mean lib scores)))"

fun CV_loop ::
  "'p library \<Rightarrow> ModelSelector \<Rightarrow> int list \<Rightarrow> pyfloat \<Rightarrow> int \<Rightarrow> exn + int" where
  "CV_loop lib s [] best_score best_states = Inr best_states"
| "CV_loop lib s (num_states # rest) best_score best_states =
     (case CV_score lib s num_states of
        Inl e \<Rightarrow> Inl e
      | Inr score \<Rightarrow>
          (if fgreater score best_score then CV_loop lib s rest score num_states
           else CV_loop lib s rest best_score best_states))"

text \<open>The candidates of the loop: \<^verbatim>\<open>range(self.min_n_components, self.max_n_components+1)\<close>.\<close>

definition CV_candidates :: "ModelSelector \<Rightarrow> int list" where
  "CV_candidates s = py_range (min_n_components s) (max_n_components s + 1)"

definition select_CV :: "'p library \<Rightarrow> ModelSelector \<Rightarrow> 'p GaussianHMM option" where
  "select_CV lib s =
     (case CV_loop lib s (CV_candidates s) NegInf 3 of
        Inr best_states \<Rightarrow> base_model lib s best_states
      | Inl e \<Rightarrow> base_model lib s (n_constant s))"

section \<open>The criteria in the words of the specification\<close>

text \<open>
  The number of free parameters, \<open>p = numStates\<^sup>2 + 2 numFeatures numStates - 1\<close>, and the
  criterion \<open>BIC = -2 logL + p log N\<close>, computed in double arithmetic from the
  log-likelihood, \<open>p\<close> as a float and the number of frames. They are compared below with
  what \<^verbatim>\<open>SelectorBIC.score\<close> computes.
\<close>

definition BIC_parameters :: "int \<Rightarrow> nat \<Rightarrow> int" where
  "BIC_parameters numStates numFeatures = numStates ^ 2 + 2 * int numFeatures * numStates - 1"

definition BIC_criterion :: "'p library \<Rightarrow> pyfloat \<Rightarrow> pyfloat \<Rightarrow> nat \<Rightarrow> pyfloat" where
  "BIC_criterion lib logL p N =
     fadd (float_round lib) (fmul (float_round lib) (Fin (- 2)) logL)
       (fmul (float_round lib) p (np_log lib N))"

text \<open>
  The log-likelihood on the word's own data minus \<^verbatim>\<open>np.mean\<close> of the log-likelihoods on
  the other words' data, in double arithmetic.
\<close>

definition DIC_criterion :: "'p library \<Rightarrow> pyfloat \<Rightarrow> pyfloat list \<Rightarrow> pyfloat" where
  "DIC_criterion lib logL others = fsub (float_round lib) logL (np_mean lib others)"

text \<open>The entries of \<^verbatim>\<open>self.hwords\<close> for the words other than this one.\<close>

definition other_words :: "ModelSelector \<Rightarrow> (string \<times> featmat \<times> int list) list" where
  "other_words s = filter (\<lambda>(word, X, lengths). word \<noteq> this_word s) (hwords s)"

text \<open>\<^verbatim>\<open>np.mean\<close> of the held-out log-likelihoods of the folds.\<close>

definition CV_criterion :: "'p library \<Rightarrow> pyfloat list \<Rightarrow> pyfloat" where
  "CV_criterion lib held_out = np_mean lib held_out"

section \<open>Concrete inputs\<close>

text \<open>
  A small instance of the library, used to evaluate the functions above on concrete
  inputs: training fails for six states and succeeds otherwise, the trained parameters
  record the number of states; scoring raises for a model of eight states, and otherwise
  the log-likelihood depends on the number of states and on the first feature value of
  the data. Its arithmetic is exact, as double arithmetic is on the values met below:
  integers and halves of small magnitude, the infinities, and \<open>ln 1 = 0\<close>.
\<close>

definition demo_logL :: "int \<Rightarrow> real" where
  "demo_logL n = (if n = 2 then - 60 else if n = 3 then - 95 / 2 else if n = 4 then - 55 else - 100)"

definition demo_lib :: "int library" where
  "demo_lib =
     \<lparr>hmm_train = (\<lambda>n cov iters seed X lengths. if n = 6 then Inl HmmError else Inr n),
      hmm_score = (\<lambda>m X lengths.
         if fitted m = 8 then Inl ValueError
         else Inr (Fin (demo_logL (fitted m) +
                real_of_int (fitted m) * (case X of [] \<Rightarrow> 0 | fr # _ \<Rightarrow> (case fr of [] \<Rightarrow> 0 | v # _ \<Rightarrow> v))))),
      float_round = Fin,
      float_of_int = (\<lambda>i. Inr (Fin (real_of_int i))),
      np_log_pos = (\<lambda>n. Fin (ln (real n))),
      np_mean_nonempty = (\<lambda>xs. fmul Fin (Fin (1 / real (length xs))) (foldl (fadd Fin) (Fin 0) xs))\<rparr>"

definition demo_model :: "int \<Rightarrow> int GaussianHMM" where
  "demo_model n = \<lparr>n_components = n, covariance_type = ''diag'', n_iter = 1000,
                    hmm_random_state = 14, fitted = n\<rparr>"

definition demo_models :: "(string \<times> int GaussianHMM option) list" where
  "demo_models = [(''WORD1'', Some (demo_model 2)), (''WORD2'', Some (demo_model 3)), (''WORD3'', None)]"

definition demo_failing_models :: "(string \<times> int GaussianHMM option) list" where
  "demo_failing_models = [(''WORD1'', Some (demo_model 8)), (''WORD3'', None)]"

text \<open>
  A word with one sequence of one frame, in a vocabulary of two words, with candidates
  from two to four states.
\<close>

definition demo_selector :: ModelSelector where
  "demo_selector =
     \<lparr>words = [(''WORD1'', [[[0]]]), (''WORD2'', [[[- 1]]])],
      hwords = [(''WORD1'', [[0]], [1]), (''WORD2'', [[- 1]], [1])],
      sequences = [[[0]]], self_X = [[0]], self_lengths = [1], this_word = ''WORD1'',
      n_constant = 3, min_n_components = 2, max_n_components = 4, random_state = 14,
      verbose = False\<rparr>"

text \<open>The vocabulary holds this word only.\<close>

definition demo_selector_single :: ModelSelector where
  "demo_selector_single =
     demo_selector\<lparr>words := [(''WORD1'', [[[0]]])], hwords := [(''WORD1'', [[0]], [1])]\<rparr>"

text \<open>An instance of the library where every fit succeeds and every score raises.\<close>

definition demo_lib_raising :: "int library" where
  "demo_lib_raising =
     demo_lib\<lparr>hmm_train := (\<lambda>n cov iters seed X lengths. Inr n),
              hmm_score := (\<lambda>m X lengths. Inl ValueError)\<rparr>"

text \<open>
  An instance of the library where every fit succeeds and every score returns minus
  infinity.
\<close>

definition demo_lib_neginf :: "int library" where
  "demo_lib_neginf =
     demo_lib\<lparr>hmm_train := (\<lambda>n cov iters seed X lengths. Inr n),
              hmm_score := (\<lambda>m X lengths. Inr NegInf)\<rparr>"


text \<open>A word with two sequences of one frame each.\<close>

definition demo_selector_CV :: ModelSelector where
  "demo_selector_CV =
     demo_selector\<lparr>words := [(''WORD1'', [[[0]], [[0]]]), (''WORD2'', [[[- 1]]])],
                    hwords := [(''WORD1'', [[0], [0]], [1, 1]), (''WORD2'', [[- 1]], [1])],
                    sequences := [[[0]], [[0]]], self_X := [[0], [0]], self_lengths := [1, 1]\<rparr>"


text \<open>The same word with an empty range of candidates and a constant of seven states.\<close>

definition demo_selector_CV_empty :: ModelSelector where
  "demo_selector_CV_empty =
     demo_selector_CV\<lparr>n_constant := 7, min_n_components := 5, max_n_components := 4\<rparr>"

text \<open>The word of two sequences with candidates of five and six states and a constant of seven.\<close>

definition demo_selector_CV_high :: ModelSelector where
  "demo_selector_CV_high =
     demo_selector_CV\<lparr>n_constant := 7, min_n_components := 5, max_n_components := 6\<rparr>"

text \<open>The word of one sequence with an empty range of candidates and a constant of seven states.\<close>

definition demo_selector_few_empty :: ModelSelector where
  "demo_selector_few_empty =
     demo_selector\<lparr>n_constant := 7, min_n_components := 5, max_n_components := 4\<rparr>"

text \<open>
  Candidates from two to seven states, of which six cannot be fitted, and a constant of
  two states: for the word of two sequences and for the word of one.
\<close>

definition demo_selector_wide :: ModelSelector where
  "demo_selector_wide = demo_selector_CV\<lparr>n_constant := 2, max_n_components := 7\<rparr>"

definition demo_selector_fail :: ModelSelector where
  "demo_selector_fail = demo_selector\<lparr>n_constant := 2, max_n_components := 7\<rparr>"

section \<open>The recognizer\<close>

lemma recognize_items_append:
  "recognize_items lib models items ps gs =
     (ps @ map (\<lambda>(X, lengths). fst (recognize_words lib models X lengths Map.empty NegInf None)) items,
      gs @ map (\<lambda>(X, lengths). snd (snd (recognize_words lib models X lengths Map.empty NegInf None))) items)"
proof (induction items arbitrary: ps gs)
  case Nil
  show ?case by simp
next
  case (Cons it items)
  obtain X lengths where it: "it = (X, lengths)" by (cases it)
  obtain wp bs bg where r: "recognize_words lib models X lengths Map.empty NegInf None = (wp, bs, bg)"
    by (cases "recognize_words lib models X lengths Map.empty NegInf None")
  show ?case by (simp add: it r Cons.IH)
qed

lemma recognize_words_other:
  "w \<notin> fst ` set models \<Longrightarrow>
   fst (recognize_words lib models X lengths wp bs bg) w = wp w"
  by (induction models arbitrary: wp bs bg) (auto split: sum.splits)

lemma recognize_words_entry:
  "distinct (map fst models) \<Longrightarrow> (w, m) \<in> set models \<Longrightarrow>
   fst (recognize_words lib models X lengths wp bs bg) w =
     Some (case model_score lib m X lengths of Inr v \<Rightarrow> v | Inl e \<Rightarrow> NegInf)"
proof (induction models arbitrary: wp bs bg)
  case Nil
  then show ?case by simp
next
  case (Cons a models)
  obtain w' m' where a: "a = (w', m')" by (cases a)
  show ?case
  proof (cases "w' = w")
    case True
    with Cons.prems a have "m' = m" and notin: "w \<notin> fst ` set models"
      by (auto simp: image_iff)
    then show ?thesis using a True
      by (simp add: recognize_words_other split: sum.splits)
  next
    case False
    with Cons.prems a have "(w, m) \<in> set models" "distinct (map fst models)" by auto
    then show ?thesis using a Cons.IH by (simp split: sum.splits)
  qed
qed

lemma recognize_words_guess:
  "snd (snd (recognize_words lib models X lengths wp bs bg)) = Some w \<Longrightarrow>
   bg = Some w \<or> (\<exists>m v. (w, m) \<in> set models \<and> model_score lib m X lengths = Inr v)"
proof (induction models arbitrary: wp bs bg)
  case Nil
  then show ?case by simp
next
  case (Cons a models)
  obtain w' m' where a: "a = (w', m')" by (cases a)
  show ?case
  proof (cases "model_score lib m' X lengths")
    case (Inl e)
    with Cons.prems a Cons.IH show ?thesis by fastforce
  next
    case (Inr v)
    show ?thesis
    proof (cases "fgreater v bs")
      case True
      with Cons.prems a Inr
      have "snd (snd (recognize_words lib models X lengths (wp(w' \<mapsto> v)) v (Some w'))) = Some w"
        by simp
      from Cons.IH[OF this] show ?thesis using a Inr by auto
    next
      case False
      with Cons.prems a Inr
      have "snd (snd (recognize_words lib models X lengths (wp(w' \<mapsto> v)) bs bg)) = Some w"
        by simp
      from Cons.IH[OF this] show ?thesis using a by auto
    qed
  qed
qed

lemma recognize_words_all_fail:
  "\<forall>(w, m) \<in> set models. \<exists>e. model_score lib m X lengths = Inl e \<Longrightarrow>
   snd (snd (recognize_words lib models X lengths wp bs bg)) = bg"
  by (induction models arbitrary: wp) (auto split: sum.splits)

lemma demo_eval [simp]:
  "model_score demo_lib None X l = Inl AttributeError"
  "model_score demo_lib (Some (demo_model 8)) X l = Inl ValueError"
  "model_score demo_lib (Some (demo_model 2)) [[0]] l = Inr (Fin (- 60))"
  "model_score demo_lib (Some (demo_model 3)) [[0]] l = Inr (Fin (- 95 / 2))"
  by (simp_all add: model_score_def demo_lib_def demo_model_def demo_logL_def)

text \<open>
  Claim C5. For a test item, a word whose model raises while scoring the item gets the
  entry negative infinity in the item's score table and is not the item's guess; when
  every model raises on the item, the guess is \<^verbatim>\<open>None\<close>. The keys of the dictionary
  \<open>models\<close> are distinct.
\<close>

theorem recognize_failed_word:
  assumes "distinct (map fst models)"
    and "i < length test_items"
    and "test_items ! i = (X, lengths)"
  shows "((w, m) \<in> set models \<and> model_score lib m X lengths = Inl e \<longrightarrow>
            (fst (fst (recognize lib models test_items filters)) ! i) w = Some NegInf \<and>
            snd (fst (recognize lib models test_items filters)) ! i \<noteq> Some w) \<and>
         ((\<forall>(w', m') \<in> set models. \<exists>e'. model_score lib m' X lengths = Inl e') \<longrightarrow>
            snd (fst (recognize lib models test_items filters)) ! i = None)"
proof -
  let ?rw = "recognize_words lib models X lengths Map.empty NegInf None"
  have tab: "fst (fst (recognize lib models test_items filters)) ! i = fst ?rw"
    using assms(2,3) by (simp add: recognize_def recognize_items_append)
  have gs: "snd (fst (recognize lib models test_items filters)) ! i = snd (snd ?rw)"
    using assms(2,3) by (simp add: recognize_def recognize_items_append)
  have one: "fst ?rw w = Some NegInf \<and> snd (snd ?rw) \<noteq> Some w"
    if mem: "(w, m) \<in> set models" and fails: "model_score lib m X lengths = Inl e"
  proof
    show "fst ?rw w = Some NegInf"
      using recognize_words_entry[OF assms(1) mem] fails by simp
    show "snd (snd ?rw) \<noteq> Some w"
    proof
      assume "snd (snd ?rw) = Some w"
      from recognize_words_guess[OF this]
      obtain m' v where m': "(w, m') \<in> set models" and ok: "model_score lib m' X lengths = Inr v"
        by auto
      from assms(1) mem m' have "m' = m"
        by (meson eq_key_imp_eq_value)
      with ok fails show False by simp
    qed
  qed
  have all: "snd (snd ?rw) = None"
    if "\<forall>(w', m') \<in> set models. \<exists>e'. model_score lib m' X lengths = Inl e'"
    using recognize_words_all_fail[OF that] .
  show ?thesis using one all by (simp add: tab gs)
qed

theorem recognize_failed_word_witness:
  "(fst (fst (recognize demo_lib demo_models [([[0]], [1])] [])) ! 0) ''WORD3'' = Some NegInf \<and>
   snd (fst (recognize demo_lib demo_models [([[0]], [1])] [])) ! 0 \<noteq> Some ''WORD3'' \<and>
   snd (fst (recognize demo_lib demo_models [([[0]], [1])] [])) ! 0 = Some ''WORD2'' \<and>
   snd (fst (recognize demo_lib demo_failing_models [([[0]], [1])] [])) ! 0 = None"
proof -
  have d1: "distinct (map fst demo_models)" by (simp add: demo_models_def)
  have d2: "distinct (map fst demo_failing_models)" by (simp add: demo_failing_models_def)
  have i: "(0::nat) < length [([[0::real]], [1::int])]" by simp
  have it: "[([[0::real]], [1::int])] ! 0 = ([[0]], [1])" by simp
  have mem: "(''WORD3'', None) \<in> set demo_models" by (simp add: demo_models_def)
  have allf: "\<forall>(w', m') \<in> set demo_failing_models. \<exists>e'. model_score demo_lib m' [[0]] [1] = Inl e'"
    by (simp add: demo_failing_models_def)
  have g: "snd (fst (recognize demo_lib demo_models [([[0]], [1])] [])) ! 0 = Some ''WORD2''"
    by (simp add: recognize_def demo_models_def fgreater_def)
  from recognize_failed_word[OF d1 i it, of "''WORD3''" None demo_lib AttributeError "[]"]
       recognize_failed_word[OF d2 i it, of "''WORD3''" None demo_lib AttributeError "[]"]
       mem allf g
  show ?thesis by simp
qed

text \<open>
  Claim C6, as the code has it. \<^verbatim>\<open>recognize\<close> returns one score table and one guess per
  test item, in the order of the test items, so both lists are as long as the test set;
  besides that it puts the entry ignoring DeprecationWarning at the front of the
  warnings filter.
\<close>

theorem recognize_lists:
  "recognize lib models test_items filters =
     ((map (\<lambda>(X, lengths). fst (recognize_words lib models X lengths Map.empty NegInf None)) test_items,
       map (\<lambda>(X, lengths). snd (snd (recognize_words lib models X lengths Map.empty NegInf None))) test_items),
      filterwarnings ''ignore'' ''DeprecationWarning'' filters) \<and>
   length (fst (fst (recognize lib models test_items filters))) = length test_items \<and>
   length (snd (fst (recognize lib models test_items filters))) = length test_items"
  by (simp add: recognize_def recognize_items_append)

text \<open>
  Claim C6 as stated has no effect but the two lists: on any input the warnings filter
  after the call holds an entry, also when it was empty before.
\<close>

theorem recognize_effect_counterexample:
  "snd (recognize demo_lib demo_models [([[0]], [1])] []) \<noteq> []"
  by (simp add: recognize_def filterwarnings_def Let_def)

section \<open>Exceptions in the loops\<close>

text \<open>A candidate whose score raises ends the loop with an exception.\<close>

lemma BIC_loop_raises:
  "k \<in> set ns \<Longrightarrow> BIC_score lib s k = Inl e \<Longrightarrow> \<exists>e'. BIC_loop lib s ns bs bm = Inl e'"
  by (induction ns arbitrary: bs bm) (auto split: sum.splits)

lemma DIC_loop_raises:
  "k \<in> set ns \<Longrightarrow> DIC_score lib s k = Inl e \<Longrightarrow> \<exists>e'. DIC_loop lib s ns bs bm = Inl e'"
  by (induction ns arbitrary: bs bm) (auto split: sum.splits)

lemma CV_loop_raises:
  "k \<in> set ns \<Longrightarrow> CV_score lib s k = Inl e \<Longrightarrow> \<exists>e'. CV_loop lib s ns bs b = Inl e'"
  by (induction ns arbitrary: bs b) (auto split: sum.splits)

section \<open>SelectorBIC\<close>

lemma fless_NaN_right: "\<not> fless x NaN"
  by (cases x) simp_all

lemma fless_linear: "fless a b \<or> a = b \<or> fless b a \<or> a = NaN \<or> b = NaN"
  by (cases a; cases b) auto

lemma fless_above:
  assumes "fless v bs" and "fless c bs" and "\<not> fless v c" and "v \<noteq> c"
  shows "fless c v"
proof -
  from assms(1,2) have "v \<noteq> NaN" "c \<noteq> NaN" by auto
  with fless_linear[of c v] assms(3,4) show ?thesis by auto
qed

lemma base_model_Some:
  "base_model lib s n = Some m \<Longrightarrow>
   n_components m = n \<and> covariance_type m = ''diag'' \<and> n_iter m = 1000 \<and>
   hmm_random_state m = random_state s"
  by (auto simp: base_model_def GaussianHMM_fit_def split: sum.splits)

lemma BIC_score_value:
  assumes "base_model lib s n = Some m"
    and "hmm_score lib m (self_X s) (self_lengths s) = Inr l"
    and "self_X s \<noteq> []"
    and "float_of_int lib (BIC_parameters n (length (hd (self_X s)))) = Inr p"
  shows "BIC_score lib s n = Inr (BIC_criterion lib l p (length (self_X s)), Some m)"
proof -
  obtain x0 xs where X: "self_X s = x0 # xs" using assms(3) by (cases "self_X s") auto
  have "n ^ 2 + 2 * (int (length x0) * n) - 1 = BIC_parameters n (length x0)"
    by (simp add: BIC_parameters_def algebra_simps)
  then show ?thesis
    using assms(1,2,4)
    by (simp add: BIC_score_def model_score_def X BIC_criterion_def Let_def)
qed

lemma BIC_loop_prefix:
  assumes "\<forall>n\<in>set pre. \<exists>mo. BIC_score lib s n = Inr (v n, mo)"
    and "\<forall>n\<in>set pre. \<not> fless (v n) c \<and> v n \<noteq> c"
    and "fless c bs"
  shows "\<exists>bs' bm'. fless c bs' \<and>
           BIC_loop lib s (pre @ rest) bs bm = BIC_loop lib s rest bs' bm'"
  using assms
proof (induction pre arbitrary: bs bm)
  case Nil
  then show ?case by auto
next
  case (Cons n pre)
  from Cons.prems(1) obtain mo where sc: "BIC_score lib s n = Inr (v n, mo)" by auto
  from Cons.prems(2) have cn: "\<not> fless (v n) c" "v n \<noteq> c" by simp_all
  show ?case
  proof (cases "fless (v n) bs")
    case True
    from fless_above[OF True Cons.prems(3) cn] have "fless c (v n)" .
    from Cons.IH[OF _ _ this, of mo] Cons.prems(1,2) sc True show ?thesis by simp
  next
    case False
    from Cons.IH[OF _ _ Cons.prems(3), of bm] Cons.prems(1,2) sc False show ?thesis by simp
  qed
qed

lemma BIC_loop_keep:
  assumes "\<forall>n\<in>set post. \<exists>mo. BIC_score lib s n = Inr (v n, mo)"
    and "\<forall>n\<in>set post. \<not> fless (v n) c"
  shows "BIC_loop lib s post c bm = Inr bm"
  using assms by (induction post) auto

lemma BIC_loop_first_min:
  assumes ok: "\<forall>n\<in>set (pre @ k # post). BIC_score lib s n = Inr (v n, Some (g n))"
    and best: "fless (v k) PosInf"
    and pre: "\<forall>n\<in>set pre. \<not> fless (v n) (v k) \<and> v n \<noteq> v k"
    and post: "\<forall>n\<in>set post. \<not> fless (v n) (v k)"
  shows "BIC_loop lib s (pre @ k # post) PosInf None = Inr (Some (g k))"
proof -
  have "\<forall>n\<in>set pre. \<exists>mo. BIC_score lib s n = Inr (v n, mo)" using ok by auto
  from BIC_loop_prefix[OF this pre best, of "k # post" None]
  obtain bs' bm' where b: "fless (v k) bs'"
    and eq: "BIC_loop lib s (pre @ k # post) PosInf None = BIC_loop lib s (k # post) bs' bm'"
    by auto
  have k: "BIC_score lib s k = Inr (v k, Some (g k))" using ok by simp
  have "\<forall>n\<in>set post. \<exists>mo. BIC_score lib s n = Inr (v n, mo)" using ok by auto
  from BIC_loop_keep[OF this post]
  have "BIC_loop lib s post (v k) (Some (g k)) = Inr (Some (g k))" .
  then show ?thesis using eq k b by simp
qed

lemma py_range_inclusive: "py_range a (b + 1) = [a..b]"
  by (simp add: py_range_def)

lemma upto_first_min_split:
  assumes "k \<in> {a..b}"
  shows "[a..b] = [a..k - 1] @ k # [k + 1..b] \<and> set [a..k - 1] = {n \<in> {a..b}. n < k} \<and>
         set [k + 1..b] \<subseteq> {a..b}"
  using assms upto_split3[of a k b] by auto

text \<open>
  Claim C1, as the code has it. Let the feature matrix have a frame, and let every
  candidate of the inclusive range from \<open>min_n_components\<close> to \<open>max_n_components\<close> be
  fitted, its model score the word's data, whatever float the score is, and its number of
  parameters \<open>p = n\<^sup>2 + 2 numFeatures n - 1\<close> convert to a float. Then \<^verbatim>\<open>score\<close> gives for
  each candidate the BIC \<open>-2 logL + p log N\<close> as double arithmetic computes it, with \<open>N\<close>
  the number of frames. If the BIC of the candidate \<open>k\<close> is below plus infinity, no
  candidate's BIC is smaller and no lower candidate's is equal, \<^verbatim>\<open>SelectorBIC.select\<close>
  returns the model fitted with \<open>k\<close> states: the minimum wins, and among equal minima the
  lowest state count. If no candidate's BIC is below plus infinity, because each is plus
  infinity or NaN, it returns \<^verbatim>\<open>None\<close>.
\<close>

theorem select_BIC_minimizes:
  assumes "self_X s \<noteq> []"
    and "\<forall>n\<in>{min_n_components s..max_n_components s}.
           base_model lib s n = Some (model n) \<and>
           hmm_score lib (model n) (self_X s) (self_lengths s) = Inr (logL n) \<and>
           float_of_int lib (BIC_parameters n (length (hd (self_X s)))) = Inr (p n)"
  shows "(\<forall>n\<in>{min_n_components s..max_n_components s}.
            BIC_score lib s n =
              Inr (BIC_criterion lib (logL n) (p n) (length (self_X s)), Some (model n)) \<and>
            n_components (model n) = n) \<and>
         (k \<in> {min_n_components s..max_n_components s} \<and>
          fless (BIC_criterion lib (logL k) (p k) (length (self_X s))) PosInf \<and>
          (\<forall>n\<in>{min_n_components s..max_n_components s}.
             \<not> fless (BIC_criterion lib (logL n) (p n) (length (self_X s)))
                  (BIC_criterion lib (logL k) (p k) (length (self_X s)))) \<and>
          (\<forall>n\<in>{min_n_components s..max_n_components s}. n < k \<longrightarrow>
             BIC_criterion lib (logL n) (p n) (length (self_X s))
               \<noteq> BIC_criterion lib (logL k) (p k) (length (self_X s))) \<longrightarrow>
          select_BIC lib s = Some (model k)) \<and>
         ((\<forall>n\<in>{min_n_components s..max_n_components s}.
             \<not> fless (BIC_criterion lib (logL n) (p n) (length (self_X s))) PosInf) \<longrightarrow>
          select_BIC lib s = None)"
proof -
  let ?a = "min_n_components s" and ?b = "max_n_components s"
  let ?v = "\<lambda>n. BIC_criterion lib (logL n) (p n) (length (self_X s))"
  have sc: "BIC_score lib s n = Inr (?v n, Some (model n))" if "n \<in> {?a..?b}" for n
  proof -
    from assms(2) that have "base_model lib s n = Some (model n)"
      "hmm_score lib (model n) (self_X s) (self_lengths s) = Inr (logL n)"
      "float_of_int lib (BIC_parameters n (length (hd (self_X s)))) = Inr (p n)" by auto
    from BIC_score_value[OF this(1,2) assms(1) this(3)] show ?thesis .
  qed
  have nc: "n_components (model n) = n" if "n \<in> {?a..?b}" for n
    using assms(2) that base_model_Some by blast
  have best: "select_BIC lib s = Some (model k)"
    if kk: "k \<in> {?a..?b}" and below: "fless (?v k) PosInf"
      and le: "\<forall>n\<in>{?a..?b}. \<not> fless (?v n) (?v k)"
      and first: "\<forall>n\<in>{?a..?b}. n < k \<longrightarrow> ?v n \<noteq> ?v k"
  proof -
    from upto_first_min_split[OF kk]
    have split: "[?a..?b] = [?a..k - 1] @ k # [k + 1..?b]"
      and pre: "set [?a..k - 1] = {n \<in> {?a..?b}. n < k}"
      and post: "set [k + 1..?b] \<subseteq> {?a..?b}" by auto
    have ok: "\<forall>n\<in>set ([?a..k - 1] @ k # [k + 1..?b]). BIC_score lib s n = Inr (?v n, Some (model n))"
    proof
      fix n assume "n \<in> set ([?a..k - 1] @ k # [k + 1..?b])"
      then have "n \<in> set [?a..?b]" using split by simp
      then show "BIC_score lib s n = Inr (?v n, Some (model n))" using sc by simp
    qed
    have p1: "\<forall>n\<in>set [?a..k - 1]. \<not> fless (?v n) (?v k) \<and> ?v n \<noteq> ?v k"
      using le first pre by blast
    have p2: "\<forall>n\<in>set [k + 1..?b]. \<not> fless (?v n) (?v k)" using le post by blast
    from BIC_loop_first_min[OF ok below p1 p2]
    have "BIC_loop lib s [?a..?b] PosInf None = Inr (Some (model k))" using split by simp
    then show ?thesis
      by (simp add: select_BIC_def BIC_candidates_def py_range_inclusive)
  qed
  have none: "select_BIC lib s = None" if "\<forall>n\<in>{?a..?b}. \<not> fless (?v n) PosInf"
  proof -
    have "\<forall>n\<in>set [?a..?b]. \<exists>mo. BIC_score lib s n = Inr (?v n, mo)" using sc by simp
    moreover have "\<forall>n\<in>set [?a..?b]. \<not> fless (?v n) PosInf" using that by simp
    ultimately have "BIC_loop lib s [?a..?b] PosInf None = Inr None" by (rule BIC_loop_keep)
    then show ?thesis
      by (simp add: select_BIC_def BIC_candidates_def py_range_inclusive)
  qed
  show ?thesis using sc nc best none by blast
qed

lemma demo_selector_init:
  "ModelSelector_init [(''WORD1'', [[[0]]]), (''WORD2'', [[[- 1]]])]
     [(''WORD1'', [[0]], [1]), (''WORD2'', [[- 1]], [1])] ''WORD1'' 3 2 4 14 False
   = Inr demo_selector"
  by (simp add: ModelSelector_init_def demo_selector_def)

lemma demo_base_model: "n \<noteq> 6 \<Longrightarrow> random_state s = 14 \<Longrightarrow> base_model demo_lib s n = Some (demo_model n)"
  by (simp add: base_model_def GaussianHMM_fit_def demo_lib_def demo_model_def)

lemma demo_base_model_6: "base_model demo_lib s 6 = None"
  by (simp add: base_model_def GaussianHMM_fit_def demo_lib_def)

lemma demo_hmm_score:
  "n \<noteq> 8 \<Longrightarrow> hmm_score demo_lib (demo_model n) [[v]] l = Inr (Fin (demo_logL n + real_of_int n * v))"
  by (simp add: demo_lib_def demo_model_def)


lemma demo_selector_CV_init:
  "ModelSelector_init [(''WORD1'', [[[0]], [[0]]]), (''WORD2'', [[[- 1]]])]
     [(''WORD1'', [[0], [0]], [1, 1]), (''WORD2'', [[- 1]], [1])] ''WORD1'' 3 2 4 14 False
   = Inr demo_selector_CV"
  by (simp add: ModelSelector_init_def demo_selector_CV_def demo_selector_def)

lemma demo_float_of_int: "float_of_int demo_lib i = Inr (Fin (real_of_int i))"
  by (simp add: demo_lib_def)

lemma demo_BIC_criterion: "BIC_criterion demo_lib (Fin l) (Fin q) (Suc 0) = Fin (- 2 * l)"
  by (simp add: BIC_criterion_def np_log_def demo_lib_def)

lemma demo_BIC_score:
  "n \<noteq> 6 \<Longrightarrow> n \<noteq> 8 \<Longrightarrow> random_state s = 14 \<Longrightarrow> self_X s = [[0]] \<Longrightarrow>
   BIC_score demo_lib s n = Inr (Fin (- 2 * demo_logL n), Some (demo_model n))"
  using demo_hmm_score[of n 0 "self_lengths s"]
    BIC_score_value[of demo_lib s n "demo_model n" "Fin (demo_logL n)"
      "Fin (real_of_int (BIC_parameters n 1))"]
  by (simp add: demo_base_model demo_float_of_int demo_BIC_criterion)

lemma demo_neginf_base_model:
  "random_state s = 14 \<Longrightarrow> base_model demo_lib_neginf s n = Some (demo_model n)"
  by (simp add: base_model_def GaussianHMM_fit_def demo_lib_neginf_def demo_model_def)

lemma demo_neginf_score: "hmm_score demo_lib_neginf m X l = Inr NegInf"
  by (simp add: demo_lib_neginf_def)

lemma demo_neginf_BIC_criterion: "BIC_criterion demo_lib_neginf NegInf (Fin q) (Suc 0) = PosInf"
  by (simp add: BIC_criterion_def np_log_def demo_lib_neginf_def demo_lib_def)

lemma int_2_4: "n \<in> {2..4} \<Longrightarrow> n = 2 \<or> n = 3 \<or> n = (4::int)"
  by auto

theorem select_BIC_minimizes_witness:
  "select_BIC demo_lib demo_selector = Some (demo_model 3) \<and>
   BIC_score demo_lib demo_selector 2 = Inr (Fin 120, Some (demo_model 2)) \<and>
   BIC_score demo_lib demo_selector 3 = Inr (Fin 95, Some (demo_model 3)) \<and>
   BIC_score demo_lib demo_selector 4 = Inr (Fin 110, Some (demo_model 4)) \<and>
   select_BIC demo_lib_neginf demo_selector = None"
proof -
  let ?s = demo_selector
  let ?logL = "\<lambda>n. Fin (demo_logL n)"
  let ?p = "\<lambda>n. Fin (real_of_int (BIC_parameters n (length (hd (self_X ?s)))))"
  have X: "self_X ?s \<noteq> []" by (simp add: demo_selector_def)
  have s: "self_X ?s = [[0]]" "self_lengths ?s = [1]" "random_state ?s = 14"
    "length (self_X ?s) = Suc 0"
    by (simp_all add: demo_selector_def)
  have rng: "{min_n_components ?s..max_n_components ?s} = {2..4}"
    by (simp add: demo_selector_def)
  have ok: "\<forall>n\<in>{min_n_components ?s..max_n_components ?s}.
           base_model demo_lib ?s n = Some (demo_model n) \<and>
           hmm_score demo_lib (demo_model n) (self_X ?s) (self_lengths ?s) = Inr (?logL n) \<and>
           float_of_int demo_lib (BIC_parameters n (length (hd (self_X ?s)))) = Inr (?p n)"
  proof
    fix n assume "n \<in> {min_n_components ?s..max_n_components ?s}"
    then have "n \<noteq> 6" "n \<noteq> 8" using rng by auto
    then show "base_model demo_lib ?s n = Some (demo_model n) \<and>
           hmm_score demo_lib (demo_model n) (self_X ?s) (self_lengths ?s) = Inr (?logL n) \<and>
           float_of_int demo_lib (BIC_parameters n (length (hd (self_X ?s)))) = Inr (?p n)"
      using demo_base_model[of n ?s] demo_hmm_score[of n 0 "[1]"]
      by (simp add: s demo_float_of_int)
  qed
  have okn: "\<forall>n\<in>{min_n_components ?s..max_n_components ?s}.
           base_model demo_lib_neginf ?s n = Some (demo_model n) \<and>
           hmm_score demo_lib_neginf (demo_model n) (self_X ?s) (self_lengths ?s) = Inr NegInf \<and>
           float_of_int demo_lib_neginf (BIC_parameters n (length (hd (self_X ?s)))) = Inr (?p n)"
    by (simp add: demo_neginf_base_model demo_neginf_score s)
      (simp add: demo_lib_neginf_def demo_lib_def)
  have k: "3 \<in> {min_n_components ?s..max_n_components ?s}" using rng by simp
  have below: "fless (BIC_criterion demo_lib (?logL 3) (?p 3) (length (self_X ?s))) PosInf"
    by (simp add: s demo_BIC_criterion)
  have le: "\<forall>n\<in>{min_n_components ?s..max_n_components ?s}.
             \<not> fless (BIC_criterion demo_lib (?logL n) (?p n) (length (self_X ?s)))
                  (BIC_criterion demo_lib (?logL 3) (?p 3) (length (self_X ?s)))"
  proof
    fix n assume "n \<in> {min_n_components ?s..max_n_components ?s}"
    then have "n \<in> {2..4}" using rng by simp
    from int_2_4[OF this]
    show "\<not> fless (BIC_criterion demo_lib (?logL n) (?p n) (length (self_X ?s)))
                  (BIC_criterion demo_lib (?logL 3) (?p 3) (length (self_X ?s)))"
      by (auto simp: s demo_BIC_criterion demo_logL_def)
  qed
  have first: "\<forall>n\<in>{min_n_components ?s..max_n_components ?s}. n < 3 \<longrightarrow>
             BIC_criterion demo_lib (?logL n) (?p n) (length (self_X ?s))
               \<noteq> BIC_criterion demo_lib (?logL 3) (?p 3) (length (self_X ?s))"
  proof (intro ballI impI)
    fix n assume "n \<in> {min_n_components ?s..max_n_components ?s}" and "n < 3"
    then have "n = 2" using rng by auto
    then show "BIC_criterion demo_lib (?logL n) (?p n) (length (self_X ?s))
               \<noteq> BIC_criterion demo_lib (?logL 3) (?p 3) (length (self_X ?s))"
      by (simp add: s demo_BIC_criterion demo_logL_def)
  qed
  have inf: "\<forall>n\<in>{min_n_components ?s..max_n_components ?s}.
             \<not> fless (BIC_criterion demo_lib_neginf NegInf (?p n) (length (self_X ?s))) PosInf"
    by (simp add: s demo_neginf_BIC_criterion)
  from select_BIC_minimizes[OF X ok, of 3] k below le first
  have a: "select_BIC demo_lib ?s = Some (demo_model 3)"
    and sc: "\<forall>n\<in>{2..4}. BIC_score demo_lib ?s n =
        Inr (BIC_criterion demo_lib (?logL n) (?p n) (length (self_X ?s)), Some (demo_model n))"
    using rng by auto
  from select_BIC_minimizes[OF X okn, of 3] inf
  have b: "select_BIC demo_lib_neginf ?s = None" by blast
  from sc have "BIC_score demo_lib ?s 2 = Inr (Fin 120, Some (demo_model 2))"
    "BIC_score demo_lib ?s 3 = Inr (Fin 95, Some (demo_model 3))"
    "BIC_score demo_lib ?s 4 = Inr (Fin 110, Some (demo_model 4))"
    by (simp_all add: s demo_BIC_criterion demo_logL_def)
  with a b show ?thesis by simp
qed

text \<open>
  Claim C1 as stated returns the model of minimal BIC whenever the fits and the scores
  succeed. Here every candidate from two to four states is fitted and its score returns
  minus infinity, so each BIC is plus infinity, the comparison with the initial
  \<^verbatim>\<open>best_score\<close> never succeeds, and \<^verbatim>\<open>select\<close> returns \<^verbatim>\<open>None\<close>.
\<close>

theorem select_BIC_counterexample:
  "base_model demo_lib_neginf demo_selector 2 = Some (demo_model 2) \<and>
   base_model demo_lib_neginf demo_selector 3 = Some (demo_model 3) \<and>
   base_model demo_lib_neginf demo_selector 4 = Some (demo_model 4) \<and>
   BIC_score demo_lib_neginf demo_selector 2 = Inr (PosInf, Some (demo_model 2)) \<and>
   BIC_score demo_lib_neginf demo_selector 3 = Inr (PosInf, Some (demo_model 3)) \<and>
   BIC_score demo_lib_neginf demo_selector 4 = Inr (PosInf, Some (demo_model 4)) \<and>
   select_BIC demo_lib_neginf demo_selector = None"
proof -
  let ?s = demo_selector
  have s: "self_X ?s = [[0]]" "random_state ?s = 14" "BIC_candidates ?s = [2, 3, 4]"
    by (simp_all add: demo_selector_def BIC_candidates_def py_range_def)
  have sc: "BIC_score demo_lib_neginf ?s n = Inr (PosInf, Some (demo_model n))" for n
    using BIC_score_value[of demo_lib_neginf ?s n "demo_model n" NegInf
        "Fin (real_of_int (BIC_parameters n 1))"]
    by (simp add: s demo_neginf_base_model demo_neginf_score demo_neginf_BIC_criterion)
      (simp add: demo_lib_neginf_def demo_lib_def)
  show ?thesis
    by (simp add: select_BIC_def s sc demo_neginf_base_model)
qed

section \<open>SelectorDIC\<close>

lemma fgreater_above:
  assumes "fgreater v bs" and "fgreater c bs" and "\<not> fgreater v c" and "v \<noteq> c"
  shows "fgreater c v"
proof -
  from assms(1,2) have "v \<noteq> NaN" "c \<noteq> NaN"
    by (auto simp: fgreater_def fless_NaN_right)
  with fless_linear[of v c] assms(3,4) show ?thesis by (auto simp: fgreater_def)
qed

lemma DIC_others_value:
  assumes "\<forall>e\<in>set hw. fst e \<noteq> tw \<longrightarrow>
             hmm_score lib m (fst (snd e)) (snd (snd e)) = Inr (h e)"
  shows "DIC_others lib tw (Some m) hw acc =
           Inr (acc @ map h (filter (\<lambda>(word, X, lengths). word \<noteq> tw) hw))"
  using assms
proof (induction hw arbitrary: acc)
  case Nil
  show ?case by simp
next
  case (Cons e hw)
  obtain w X l where e: "e = (w, X, l)" by (cases e)
  show ?case
  proof (cases "w = tw")
    case True
    then show ?thesis using Cons e by simp
  next
    case False
    with Cons.prems e have "hmm_score lib m X l = Inr (h (w, X, l))" by simp
    then show ?thesis using Cons False e by (simp add: model_score_def)
  qed
qed

lemma DIC_score_value:
  assumes "base_model lib s n = Some m"
    and "hmm_score lib m (self_X s) (self_lengths s) = Inr l"
    and "\<forall>e\<in>set (hwords s). fst e \<noteq> this_word s \<longrightarrow>
           hmm_score lib m (fst (snd e)) (snd (snd e)) = Inr (h e)"
  shows "DIC_score lib s n = Inr (DIC_criterion lib l (map h (other_words s)), Some m)"
proof -
  have "DIC_others lib (this_word s) (Some m) (hwords s) [] = Inr (map h (other_words s))"
    using DIC_others_value[OF assms(3), of "[]"] by (simp add: other_words_def)
  then show ?thesis
    using assms(1,2) by (simp add: DIC_score_def model_score_def DIC_criterion_def)
qed




lemma set_py_range: "set (py_range a b) = {a..<b}"
  by (auto simp: py_range_def)

lemma fsub_NaN: "fsub rnd v NaN = NaN"
  by (cases v) (simp_all add: fsub_def)


lemma DIC_others_single:
  "\<forall>e\<in>set hw. fst e = tw \<Longrightarrow> DIC_others lib tw model hw acc = Inr acc"
  by (induction hw arbitrary: acc) auto

lemma DIC_score_single:
  assumes "\<forall>e\<in>set (hwords s). fst e = this_word s"
    and "base_model lib s n = Some m"
    and "hmm_score lib m (self_X s) (self_lengths s) = Inr v"
  shows "DIC_score lib s n = Inr (NaN, Some m)"
  using assms(2,3)
  by (simp add: DIC_score_def DIC_others_single[OF assms(1)] np_mean_def model_score_def fsub_NaN)

lemma DIC_loop_NaN:
  "\<forall>n\<in>set ns. \<exists>mo. DIC_score lib s n = Inr (NaN, mo) \<Longrightarrow>
   DIC_loop lib s ns bs bm = Inr bm"
  by (induction ns) (auto simp: fgreater_def fless_NaN_right)


lemma demo_DIC_criterion_one: "DIC_criterion demo_lib (Fin a) [Fin b] = Fin (a - b)"
  by (simp add: DIC_criterion_def np_mean_def fsub_def demo_lib_def)

lemma demo_GaussianHMM_fit:
  "n \<noteq> 6 \<Longrightarrow> GaussianHMM_fit demo_lib n ''diag'' 1000 14 X l = Inr (demo_model n)"
  by (simp add: GaussianHMM_fit_def demo_lib_def demo_model_def)


lemma demo_folds:
  "KFold_split (length (sequences demo_selector_CV)) = Inr [([Suc 0], [0]), ([0], [Suc 0])]"
  "combine_sequences [0] (sequences demo_selector_CV) = Inr ([[0]], [1])"
  "combine_sequences [Suc 0] (sequences demo_selector_CV) = Inr ([[0]], [1])"
  by (simp_all add: KFold_split_def combine_sequences_def demo_selector_CV_def demo_selector_def
      upt_rec)



text \<open>
  Claim C9, as the code has it. When the feature-matrix mapping holds the target word
  only, every candidate is fitted and every candidate's model scores the word's own data
  without raising, the mean over the empty list is NaN, every candidate's DIC score is
  NaN, no comparison succeeds and \<^verbatim>\<open>SelectorDIC.select\<close> returns \<^verbatim>\<open>None\<close>.
\<close>

theorem select_DIC_single_word:
  assumes "\<forall>e\<in>set (hwords s). fst e = this_word s"
    and "\<forall>n\<in>{min_n_components s..<max_n_components s}.
           base_model lib s n = Some (model n) \<and>
           hmm_score lib (model n) (self_X s) (self_lengths s) = Inr (v n)"
  shows "select_DIC lib s = None \<and>
         (\<forall>n\<in>{min_n_components s..<max_n_components s}.
            DIC_score lib s n = Inr (NaN, Some (model n)))"
proof -
  have sc: "\<forall>n\<in>{min_n_components s..<max_n_components s}.
              DIC_score lib s n = Inr (NaN, Some (model n))"
    using assms(2) DIC_score_single[OF assms(1)] by blast
  then have "\<forall>n\<in>set (DIC_candidates s). \<exists>mo. DIC_score lib s n = Inr (NaN, mo)"
    by (simp add: DIC_candidates_def set_py_range)
  from DIC_loop_NaN[OF this] have "select_DIC lib s = None"
    by (simp add: select_DIC_def)
  with sc show ?thesis by simp
qed

theorem select_DIC_single_word_witness:
  "select_DIC demo_lib demo_selector_single = None \<and>
   DIC_score demo_lib demo_selector_single 2 = Inr (NaN, Some (demo_model 2)) \<and>
   DIC_score demo_lib demo_selector_single 3 = Inr (NaN, Some (demo_model 3))"
proof -
  let ?s = demo_selector_single
  have single: "\<forall>e\<in>set (hwords ?s). fst e = this_word ?s"
    by (simp add: demo_selector_single_def demo_selector_def)
  have rng: "{min_n_components ?s..<max_n_components ?s} = {2..<4}"
    by (simp add: demo_selector_single_def demo_selector_def)
  have ok: "\<forall>n\<in>{min_n_components ?s..<max_n_components ?s}.
           base_model demo_lib ?s n = Some (demo_model n) \<and>
           hmm_score demo_lib (demo_model n) (self_X ?s) (self_lengths ?s) = Inr (Fin (demo_logL n))"
  proof
    fix n assume "n \<in> {min_n_components ?s..<max_n_components ?s}"
    then have "n \<noteq> 6" "n \<noteq> 8" using rng by auto
    then show "base_model demo_lib ?s n = Some (demo_model n) \<and>
           hmm_score demo_lib (demo_model n) (self_X ?s) (self_lengths ?s) = Inr (Fin (demo_logL n))"
      using demo_base_model[of n ?s] demo_hmm_score[of n 0 "[1]"]
      by (simp add: demo_selector_single_def demo_selector_def)
  qed
  from select_DIC_single_word[OF single ok] rng show ?thesis by simp
qed

text \<open>
  Claim C9 as stated asks for the fits to succeed and nothing of the scores: where every
  fit succeeds and the score of a fitted model raises on the word's own data, the
  exception reaches the handler and \<^verbatim>\<open>select\<close> returns the model fitted with
  \<open>n_constant\<close> states, not \<^verbatim>\<open>None\<close>.
\<close>

theorem select_DIC_single_word_counterexample:
  "base_model demo_lib_raising demo_selector_single 2 = Some (demo_model 2) \<and>
   base_model demo_lib_raising demo_selector_single 3 = Some (demo_model 3) \<and>
   other_words demo_selector_single = [] \<and>
   select_DIC demo_lib_raising demo_selector_single = Some (demo_model 3)"
  by (simp add: select_DIC_def DIC_candidates_def py_range_def DIC_score_def base_model_def
      GaussianHMM_fit_def model_score_def demo_lib_raising_def demo_selector_single_def
      demo_selector_def demo_model_def other_words_def upto.simps)

section \<open>SelectorCV\<close>

lemma KFold_split_two:
  "2 \<le> n \<Longrightarrow> KFold_split n =
     Inr [([n div 2 + n mod 2..<n], [0..<n div 2 + n mod 2]),
          ([0..<n div 2 + n mod 2], [n div 2 + n mod 2..<n])]"
  by (simp add: KFold_split_def Let_def)

lemma CV_folds_value:
  assumes "\<forall>fold\<in>set fs. \<exists>X_train l_train X_test L_test model.
             combine_sequences (fst fold) (sequences s) = Inr (X_train, l_train) \<and>
             GaussianHMM_fit lib n ''diag'' 1000 (random_state s) X_train l_train = Inr model \<and>
             combine_sequences (snd fold) (sequences s) = Inr (X_test, L_test) \<and>
             hmm_score lib model X_test L_test = Inr (h fold)"
  shows "CV_folds lib s n fs acc = Inr (acc @ map h fs)"
  using assms
proof (induction fs arbitrary: acc)
  case Nil
  show ?case by simp
next
  case (Cons fold fs)
  obtain tr te where f: "fold = (tr, te)" by (cases fold)
  from Cons.prems f obtain X_train l_train X_test L_test model where
    "combine_sequences tr (sequences s) = Inr (X_train, l_train)"
    "GaussianHMM_fit lib n ''diag'' 1000 (random_state s) X_train l_train = Inr model"
    "combine_sequences te (sequences s) = Inr (X_test, L_test)"
    "hmm_score lib model X_test L_test = Inr (h (tr, te))"
    by fastforce
  moreover have "CV_folds lib s n fs (acc @ [h (tr, te)]) = Inr ((acc @ [h (tr, te)]) @ map h fs)"
    using Cons.IH Cons.prems by simp
  ultimately show ?case using f by simp
qed

lemma CV_score_value:
  assumes "KFold_split (length (sequences s)) = Inr folds"
    and "\<forall>fold\<in>set folds. \<exists>X_train l_train X_test L_test model.
             combine_sequences (fst fold) (sequences s) = Inr (X_train, l_train) \<and>
             GaussianHMM_fit lib n ''diag'' 1000 (random_state s) X_train l_train = Inr model \<and>
             combine_sequences (snd fold) (sequences s) = Inr (X_test, L_test) \<and>
             hmm_score lib model X_test L_test = Inr (h fold)"
  shows "CV_score lib s n = Inr (CV_criterion lib (map h folds))"
  using CV_folds_value[OF assms(2), of "[]"] assms(1)
  by (simp add: CV_score_def CV_criterion_def)

lemma CV_loop_prefix:
  assumes "\<forall>n\<in>set pre. CV_score lib s n = Inr (v n)"
    and "\<forall>n\<in>set pre. \<not> fgreater (v n) c \<and> v n \<noteq> c"
    and "fgreater c bs"
  shows "\<exists>bs' b'. fgreater c bs' \<and>
           CV_loop lib s (pre @ rest) bs b = CV_loop lib s rest bs' b'"
  using assms
proof (induction pre arbitrary: bs b)
  case Nil
  then show ?case by auto
next
  case (Cons n pre)
  from Cons.prems have sc: "CV_score lib s n = Inr (v n)"
    and cn: "\<not> fgreater (v n) c" "v n \<noteq> c" by simp_all
  show ?case
  proof (cases "fgreater (v n) bs")
    case True
    from fgreater_above[OF True Cons.prems(3) cn] have "fgreater c (v n)" .
    from Cons.IH[OF _ _ this, of n] Cons.prems(1,2) sc True show ?thesis by simp
  next
    case False
    from Cons.IH[OF _ _ Cons.prems(3), of b] Cons.prems(1,2) sc False show ?thesis by simp
  qed
qed

lemma CV_loop_keep:
  assumes "\<forall>n\<in>set post. CV_score lib s n = Inr (v n)"
    and "\<forall>n\<in>set post. \<not> fgreater (v n) c"
  shows "CV_loop lib s post c b = Inr b"
  using assms by (induction post) auto

lemma CV_loop_first_max:
  assumes ok: "\<forall>n\<in>set (pre @ k # post). CV_score lib s n = Inr (v n)"
    and best: "fgreater (v k) NegInf"
    and pre: "\<forall>n\<in>set pre. \<not> fgreater (v n) (v k) \<and> v n \<noteq> v k"
    and post: "\<forall>n\<in>set post. \<not> fgreater (v n) (v k)"
  shows "CV_loop lib s (pre @ k # post) NegInf b = Inr k"
proof -
  have "\<forall>n\<in>set pre. CV_score lib s n = Inr (v n)" using ok by auto
  from CV_loop_prefix[OF this pre best, of "k # post" b]
  obtain bs' b' where b: "fgreater (v k) bs'"
    and eq: "CV_loop lib s (pre @ k # post) NegInf b = CV_loop lib s (k # post) bs' b'"
    by auto
  have k: "CV_score lib s k = Inr (v k)" using ok by simp
  have "\<forall>n\<in>set post. CV_score lib s n = Inr (v n)" using ok by auto
  from CV_loop_keep[OF this post]
  have "CV_loop lib s post (v k) k = Inr k" .
  then show ?thesis using eq k b by simp
qed

lemma select_CV_empty_range:
  "max_n_components s < min_n_components s \<Longrightarrow> select_CV lib s = base_model lib s 3"
  by (simp add: select_CV_def CV_candidates_def py_range_def)

text \<open>
  Claim C3, as the code has it. Let the word have at least two sequences, which
  \<^verbatim>\<open>KFold(n_splits=2)\<close> splits into two folds, the same for every candidate, and let for
  every candidate of the inclusive range the fit on each fold's training sequences
  succeed and its model score the held-out sequences, whatever float the score is. The
  score of a candidate is \<^verbatim>\<open>np.mean\<close> of its two held-out log-likelihoods. If the score of
  the candidate \<open>k\<close> exceeds minus infinity, no candidate's score is greater and no lower
  candidate's is equal, \<^verbatim>\<open>SelectorCV.select\<close> returns what fitting \<open>k\<close> states on the word's
  whole data, \<open>self_X\<close> and \<open>self_lengths\<close>, gives, and not a model trained on a fold. If
  no candidate's score exceeds minus infinity, because each is minus infinity or NaN or
  because the range is empty and the loop never runs, the number of states is 3.
\<close>

theorem select_CV_maximizes:
  assumes "2 \<le> length (sequences s)"
    and "KFold_split (length (sequences s)) = Inr folds"
    and "\<forall>n\<in>{min_n_components s..max_n_components s}. \<forall>fold\<in>set folds.
           \<exists>X_train l_train X_test L_test model.
             combine_sequences (fst fold) (sequences s) = Inr (X_train, l_train) \<and>
             GaussianHMM_fit lib n ''diag'' 1000 (random_state s) X_train l_train = Inr model \<and>
             combine_sequences (snd fold) (sequences s) = Inr (X_test, L_test) \<and>
             hmm_score lib model X_test L_test = Inr (held_out n fold)"
  shows "length folds = 2 \<and>
         (\<forall>n\<in>{min_n_components s..max_n_components s}.
            CV_score lib s n = Inr (CV_criterion lib (map (held_out n) folds))) \<and>
         (k \<in> {min_n_components s..max_n_components s} \<and>
          fgreater (CV_criterion lib (map (held_out k) folds)) NegInf \<and>
          (\<forall>n\<in>{min_n_components s..max_n_components s}.
             \<not> fgreater (CV_criterion lib (map (held_out n) folds))
                  (CV_criterion lib (map (held_out k) folds))) \<and>
          (\<forall>n\<in>{min_n_components s..max_n_components s}. n < k \<longrightarrow>
             CV_criterion lib (map (held_out n) folds)
               \<noteq> CV_criterion lib (map (held_out k) folds)) \<longrightarrow>
          select_CV lib s =
            (case GaussianHMM_fit lib k ''diag'' 1000 (random_state s) (self_X s) (self_lengths s) of
               Inr hmm_model \<Rightarrow> Some hmm_model | Inl e \<Rightarrow> None)) \<and>
         ((\<forall>n\<in>{min_n_components s..max_n_components s}.
             \<not> fgreater (CV_criterion lib (map (held_out n) folds)) NegInf) \<longrightarrow>
          select_CV lib s =
            (case GaussianHMM_fit lib 3 ''diag'' 1000 (random_state s) (self_X s) (self_lengths s) of
               Inr hmm_model \<Rightarrow> Some hmm_model | Inl e \<Rightarrow> None)) \<and>
         (max_n_components s < min_n_components s \<longrightarrow>
          select_CV lib s =
            (case GaussianHMM_fit lib 3 ''diag'' 1000 (random_state s) (self_X s) (self_lengths s) of
               Inr hmm_model \<Rightarrow> Some hmm_model | Inl e \<Rightarrow> None))"
proof -
  let ?a = "min_n_components s" and ?b = "max_n_components s"
  let ?v = "\<lambda>n. CV_criterion lib (map (held_out n) folds)"
  have len: "length folds = 2"
    using assms(1,2) by (auto simp: KFold_split_two)
  have sc: "CV_score lib s n = Inr (?v n)" if "n \<in> {?a..?b}" for n
  proof -
    from assms(3) that have "\<forall>fold\<in>set folds.
           \<exists>X_train l_train X_test L_test model.
             combine_sequences (fst fold) (sequences s) = Inr (X_train, l_train) \<and>
             GaussianHMM_fit lib n ''diag'' 1000 (random_state s) X_train l_train = Inr model \<and>
             combine_sequences (snd fold) (sequences s) = Inr (X_test, L_test) \<and>
             hmm_score lib model X_test L_test = Inr (held_out n fold)" by blast
    from CV_score_value[OF assms(2) this] show ?thesis .
  qed
  have best: "select_CV lib s = base_model lib s k"
    if kk: "k \<in> {?a..?b}" and above: "fgreater (?v k) NegInf"
      and le: "\<forall>n\<in>{?a..?b}. \<not> fgreater (?v n) (?v k)"
      and first: "\<forall>n\<in>{?a..?b}. n < k \<longrightarrow> ?v n \<noteq> ?v k"
  proof -
    from upto_first_min_split[OF kk]
    have split: "[?a..?b] = [?a..k - 1] @ k # [k + 1..?b]"
      and pre: "set [?a..k - 1] = {n \<in> {?a..?b}. n < k}"
      and post: "set [k + 1..?b] \<subseteq> {?a..?b}" by auto
    have ok: "\<forall>n\<in>set ([?a..k - 1] @ k # [k + 1..?b]). CV_score lib s n = Inr (?v n)"
    proof
      fix n assume "n \<in> set ([?a..k - 1] @ k # [k + 1..?b])"
      then have "n \<in> set [?a..?b]" using split by simp
      then show "CV_score lib s n = Inr (?v n)" using sc by simp
    qed
    have p1: "\<forall>n\<in>set [?a..k - 1]. \<not> fgreater (?v n) (?v k) \<and> ?v n \<noteq> ?v k"
      using le first pre by blast
    have p2: "\<forall>n\<in>set [k + 1..?b]. \<not> fgreater (?v n) (?v k)" using le post by blast
    from CV_loop_first_max[OF ok above p1 p2]
    have "CV_loop lib s [?a..?b] NegInf 3 = Inr k" using split by simp
    then show ?thesis
      by (simp add: select_CV_def CV_candidates_def py_range_inclusive)
  qed
  have none: "select_CV lib s = base_model lib s 3"
    if "\<forall>n\<in>{?a..?b}. \<not> fgreater (?v n) NegInf"
  proof -
    have "\<forall>n\<in>set [?a..?b]. CV_score lib s n = Inr (?v n)" using sc by simp
    moreover have "\<forall>n\<in>set [?a..?b]. \<not> fgreater (?v n) NegInf" using that by simp
    ultimately have "CV_loop lib s [?a..?b] NegInf 3 = Inr 3" by (rule CV_loop_keep)
    then show ?thesis
      by (simp add: select_CV_def CV_candidates_def py_range_inclusive)
  qed
  have bm: "base_model lib s j =
      (case GaussianHMM_fit lib j ''diag'' 1000 (random_state s) (self_X s) (self_lengths s) of
         Inr hmm_model \<Rightarrow> Some hmm_model | Inl e \<Rightarrow> None)" for j
    by (simp add: base_model_def)
  show ?thesis
    using len sc best none select_CV_empty_range[of s lib] unfolding bm by blast
qed

lemma demo_neginf_GaussianHMM_fit:
  "GaussianHMM_fit demo_lib_neginf n ''diag'' 1000 14 X l = Inr (demo_model n)"
  by (simp add: GaussianHMM_fit_def demo_lib_neginf_def demo_model_def)

lemma demo_CV_criterion:
  "CV_criterion demo_lib [Fin a, Fin b] = Fin ((a + b) / 2)"
  "CV_criterion demo_lib_neginf [NegInf, NegInf] = NegInf"
  by (simp_all add: CV_criterion_def np_mean_def demo_lib_neginf_def demo_lib_def)

theorem select_CV_maximizes_witness:
  "select_CV demo_lib demo_selector_CV = Some (demo_model 3) \<and>
   CV_score demo_lib demo_selector_CV 2 = Inr (Fin (- 60)) \<and>
   CV_score demo_lib demo_selector_CV 3 = Inr (Fin (- 95 / 2)) \<and>
   CV_score demo_lib demo_selector_CV 4 = Inr (Fin (- 55)) \<and>
   select_CV demo_lib demo_selector_CV_empty = Some (demo_model 3) \<and>
   n_constant demo_selector_CV_empty = 7"
proof -
  let ?s = demo_selector_CV and ?e = demo_selector_CV_empty
  let ?folds = "[([Suc 0], [0]), ([0], [Suc 0])] :: (nat list \<times> nat list) list"
  let ?h = "\<lambda>n (fold :: nat list \<times> nat list). Fin (demo_logL n)"
  have two: "2 \<le> length (sequences ?s)" "2 \<le> length (sequences ?e)"
    by (simp_all add: demo_selector_CV_empty_def demo_selector_CV_def demo_selector_def)
  have seqs: "sequences ?e = sequences ?s" "random_state ?e = random_state ?s"
    by (simp_all add: demo_selector_CV_empty_def)
  have seed: "random_state ?s = 14" by (simp add: demo_selector_CV_def demo_selector_def)
  have rng: "{min_n_components ?s..max_n_components ?s} = {2..4}"
    by (simp add: demo_selector_CV_def demo_selector_def)
  have rnge: "{min_n_components ?e..max_n_components ?e} = {}"
    "max_n_components ?e < min_n_components ?e" "n_constant ?e = 7"
    by (simp_all add: demo_selector_CV_empty_def)
  have ok: "\<forall>n\<in>{min_n_components ?s..max_n_components ?s}. \<forall>fold\<in>set ?folds.
           \<exists>X_train l_train X_test L_test model.
             combine_sequences (fst fold) (sequences ?s) = Inr (X_train, l_train) \<and>
             GaussianHMM_fit demo_lib n ''diag'' 1000 (random_state ?s) X_train l_train = Inr model \<and>
             combine_sequences (snd fold) (sequences ?s) = Inr (X_test, L_test) \<and>
             hmm_score demo_lib model X_test L_test = Inr (?h n fold)"
  proof
    fix n assume "n \<in> {min_n_components ?s..max_n_components ?s}"
    then have "n \<noteq> 6" "n \<noteq> 8" using rng by auto
    then show "\<forall>fold\<in>set ?folds.
           \<exists>X_train l_train X_test L_test model.
             combine_sequences (fst fold) (sequences ?s) = Inr (X_train, l_train) \<and>
             GaussianHMM_fit demo_lib n ''diag'' 1000 (random_state ?s) X_train l_train = Inr model \<and>
             combine_sequences (snd fold) (sequences ?s) = Inr (X_test, L_test) \<and>
             hmm_score demo_lib model X_test L_test = Inr (?h n fold)"
      using demo_hmm_score[of n 0 "[1]"]
      by (simp add: demo_folds seed demo_GaussianHMM_fit)
  qed
  have oke: "\<forall>n\<in>{min_n_components ?e..max_n_components ?e}. \<forall>fold\<in>set ?folds.
           \<exists>X_train l_train X_test L_test model.
             combine_sequences (fst fold) (sequences ?e) = Inr (X_train, l_train) \<and>
             GaussianHMM_fit demo_lib n ''diag'' 1000 (random_state ?e) X_train l_train = Inr model \<and>
             combine_sequences (snd fold) (sequences ?e) = Inr (X_test, L_test) \<and>
             hmm_score demo_lib model X_test L_test = Inr (?h n fold)"
    using rnge by simp
  have k: "3 \<in> {min_n_components ?s..max_n_components ?s}" using rng by simp
  have above: "fgreater (CV_criterion demo_lib (map (?h 3) ?folds)) NegInf"
    by (simp add: demo_CV_criterion fgreater_def)
  have le: "\<forall>n\<in>{min_n_components ?s..max_n_components ?s}.
             \<not> fgreater (CV_criterion demo_lib (map (?h n) ?folds))
                  (CV_criterion demo_lib (map (?h 3) ?folds))"
  proof
    fix n assume "n \<in> {min_n_components ?s..max_n_components ?s}"
    then have "n \<in> {2..4}" using rng by simp
    from int_2_4[OF this]
    show "\<not> fgreater (CV_criterion demo_lib (map (?h n) ?folds))
                  (CV_criterion demo_lib (map (?h 3) ?folds))"
      by (auto simp: demo_CV_criterion fgreater_def demo_logL_def)
  qed
  have first: "\<forall>n\<in>{min_n_components ?s..max_n_components ?s}. n < 3 \<longrightarrow>
             CV_criterion demo_lib (map (?h n) ?folds) \<noteq> CV_criterion demo_lib (map (?h 3) ?folds)"
  proof (intro ballI impI)
    fix n assume "n \<in> {min_n_components ?s..max_n_components ?s}" and "n < 3"
    then have "n = 2" using rng by auto
    then show "CV_criterion demo_lib (map (?h n) ?folds) \<noteq> CV_criterion demo_lib (map (?h 3) ?folds)"
      by (simp add: demo_CV_criterion demo_logL_def)
  qed
  have fit: "GaussianHMM_fit demo_lib 3 ''diag'' 1000 (random_state ?s) X l = Inr (demo_model 3)"
    for X l by (simp add: seed demo_GaussianHMM_fit)
  from select_CV_maximizes[OF two(1) demo_folds(1) ok, of 3] k above le first
  have a: "select_CV demo_lib ?s = Some (demo_model 3)"
    and sc: "\<forall>n\<in>{2..4}. CV_score demo_lib ?s n = Inr (CV_criterion demo_lib (map (?h n) ?folds))"
    using rng by (simp_all add: fit)
  from select_CV_maximizes[OF two(2) demo_folds(1)[folded seqs(1)] oke, of 3] rnge(2)
  have b: "select_CV demo_lib ?e = Some (demo_model 3)" by (simp add: fit seqs)
  from sc have "CV_score demo_lib ?s 2 = Inr (Fin (- 60))"
    "CV_score demo_lib ?s 3 = Inr (Fin (- 95 / 2))"
    "CV_score demo_lib ?s 4 = Inr (Fin (- 55))"
    by (simp_all add: demo_CV_criterion demo_logL_def)
  with a b rnge(3) show ?thesis by simp
qed

text \<open>
  Claim C3 as stated picks the candidate of maximal mean held-out log-likelihood
  whenever the fits and the scores succeed. Here the word has two sequences, the
  candidates are five and six states, every fold fit succeeds and every held-out score
  returns minus infinity; the mean is minus infinity, which does not exceed the initial
  \<^verbatim>\<open>best_score\<close>, and \<^verbatim>\<open>select\<close> returns the model of 3 states, outside the range.
\<close>

theorem select_CV_counterexample:
  "2 \<le> length (sequences demo_selector_CV_high) \<and>
   min_n_components demo_selector_CV_high = 5 \<and>
   max_n_components demo_selector_CV_high = 6 \<and>
   CV_score demo_lib_neginf demo_selector_CV_high 5 = Inr NegInf \<and>
   CV_score demo_lib_neginf demo_selector_CV_high 6 = Inr NegInf \<and>
   select_CV demo_lib_neginf demo_selector_CV_high = Some (demo_model 3) \<and>
   n_components (demo_model 3) = 3"
proof -
  let ?s = demo_selector_CV_high
  have s: "sequences ?s = sequences demo_selector_CV" "random_state ?s = 14"
    "min_n_components ?s = 5" "max_n_components ?s = 6" "CV_candidates ?s = [5, 6]"
    "length (sequences ?s) = 2"
    by (simp_all add: demo_selector_CV_high_def demo_selector_CV_def demo_selector_def
        CV_candidates_def py_range_def)
  have sc: "CV_score demo_lib_neginf ?s n = Inr NegInf" for n
    using demo_CV_criterion(2)
    by (simp add: CV_score_def s demo_folds demo_neginf_GaussianHMM_fit demo_neginf_score
        CV_criterion_def)
  have two: "2 \<le> length (sequences ?s)" by (simp only: s(6))
  have sel: "select_CV demo_lib_neginf ?s = Some (demo_model 3)"
    by (simp add: select_CV_def s(2,5) sc fgreater_def demo_neginf_base_model)
  have "n_components (demo_model 3) = 3" by (simp add: demo_model_def)
  with two sel sc s(3,4) show ?thesis by simp
qed

lemma CV_score_few:
  "length (sequences s) < 2 \<Longrightarrow> CV_score lib s n = Inl ValueError"
  by (simp add: CV_score_def KFold_split_def)

lemma py_range_Cons: "a < b \<Longrightarrow> py_range a b = a # py_range (a + 1) b"
  by (simp add: py_range_def upto_rec1)

text \<open>
  Claim C10, as the code has it. For a word of fewer than two sequences and a range that
  is not empty, the split raises ValueError in the first call of \<^verbatim>\<open>score\<close>, the handler of
  \<^verbatim>\<open>SelectorCV.select\<close> catches it, and the result is what \<^verbatim>\<open>base_model\<close> gives for
  \<open>n_constant\<close> states, which is \<^verbatim>\<open>None\<close> when that fit fails. When the range is empty
  \<^verbatim>\<open>score\<close> is not called, and the result is what \<^verbatim>\<open>base_model\<close> gives for 3 states.
\<close>

theorem select_CV_few_sequences:
  assumes "length (sequences s) < 2"
  shows "(min_n_components s \<le> max_n_components s \<longrightarrow>
            CV_score lib s (min_n_components s) = Inl ValueError \<and>
            CV_loop lib s (CV_candidates s) NegInf 3 = Inl ValueError \<and>
            select_CV lib s = base_model lib s (n_constant s) \<and>
            (hmm_train lib (n_constant s) ''diag'' 1000 (random_state s) (self_X s) (self_lengths s)
               = Inl e \<longrightarrow> select_CV lib s = None)) \<and>
         (max_n_components s < min_n_components s \<longrightarrow> select_CV lib s = base_model lib s 3)"
proof -
  have sc: "CV_score lib s (min_n_components s) = Inl ValueError"
    using assms by (rule CV_score_few)
  have loop: "CV_loop lib s (CV_candidates s) NegInf 3 = Inl ValueError"
    if "min_n_components s \<le> max_n_components s"
    using that sc by (simp add: CV_candidates_def py_range_Cons)
  have sel: "select_CV lib s = base_model lib s (n_constant s)"
    if "min_n_components s \<le> max_n_components s"
    using loop[OF that] by (simp add: select_CV_def)
  have none: "base_model lib s (n_constant s) = None"
    if "hmm_train lib (n_constant s) ''diag'' 1000 (random_state s) (self_X s) (self_lengths s) = Inl e"
    using that by (simp add: base_model_def GaussianHMM_fit_def)
  show ?thesis
    using sc loop sel none select_CV_empty_range[of s lib] by simp
qed

theorem select_CV_few_sequences_witness:
  "select_CV demo_lib demo_selector = Some (demo_model 3) \<and>
   CV_score demo_lib demo_selector 2 = Inl ValueError \<and>
   select_CV demo_lib (demo_selector\<lparr>n_constant := 6\<rparr>) = None \<and>
   select_CV demo_lib demo_selector_few_empty = Some (demo_model 3)"
proof -
  have few: "length (sequences demo_selector) < 2"
    "length (sequences (demo_selector\<lparr>n_constant := 6\<rparr>)) < 2"
    "length (sequences demo_selector_few_empty) < 2"
    by (simp_all add: demo_selector_few_empty_def demo_selector_def)
  have rng: "min_n_components demo_selector \<le> max_n_components demo_selector"
    "min_n_components demo_selector = 2" "n_constant demo_selector = 3"
    "max_n_components demo_selector_few_empty < min_n_components demo_selector_few_empty"
    by (simp_all add: demo_selector_few_empty_def demo_selector_def)
  have fails: "hmm_train demo_lib (n_constant (demo_selector\<lparr>n_constant := 6\<rparr>)) ''diag'' 1000
      (random_state (demo_selector\<lparr>n_constant := 6\<rparr>)) (self_X (demo_selector\<lparr>n_constant := 6\<rparr>))
      (self_lengths (demo_selector\<lparr>n_constant := 6\<rparr>)) = Inl HmmError"
    by (simp add: demo_lib_def)
  have bm: "base_model demo_lib demo_selector 3 = Some (demo_model 3)"
    "base_model demo_lib demo_selector_few_empty 3 = Some (demo_model 3)"
    by (simp_all add: demo_base_model demo_selector_few_empty_def demo_selector_def)
  from select_CV_few_sequences[OF few(1), of demo_lib HmmError]
       select_CV_few_sequences[OF few(2), of demo_lib HmmError]
       select_CV_few_sequences[OF few(3), of demo_lib HmmError]
       rng fails bm
  show ?thesis by (simp add: demo_base_model_6)
qed

text \<open>
  Claim C10 as stated gives the model of \<open>n_constant\<close> states for every word of fewer than
  two sequences: with an empty range the split is never tried and the model has 3 states
  where \<open>n_constant\<close> is 7.
\<close>

theorem select_CV_few_sequences_counterexample:
  "length (sequences demo_selector_few_empty) < 2 \<and>
   select_CV demo_lib demo_selector_few_empty = Some (demo_model 3) \<and>
   base_model demo_lib demo_selector_few_empty (n_constant demo_selector_few_empty)
     = Some (demo_model 7) \<and>
   select_CV demo_lib demo_selector_few_empty
     \<noteq> base_model demo_lib demo_selector_few_empty (n_constant demo_selector_few_empty)"
  by (simp add: select_CV_def CV_candidates_def py_range_def demo_base_model
      demo_selector_few_empty_def demo_selector_def demo_model_def)

section \<open>Failures of the fit\<close>

lemma BIC_score_None: "base_model lib s n = None \<Longrightarrow> BIC_score lib s n = Inl AttributeError"
  by (simp add: BIC_score_def model_score_def)

lemma DIC_others_None:
  "DIC_others lib tw None hw acc = Inl AttributeError \<or> DIC_others lib tw None hw acc = Inr acc"
proof (induction hw)
  case Nil
  show ?case by simp
next
  case (Cons e hw)
  obtain w X l where "e = (w, X, l)" by (cases e)
  then show ?case using Cons.IH by (simp add: model_score_def)
qed

lemma DIC_score_None: "base_model lib s n = None \<Longrightarrow> DIC_score lib s n = Inl AttributeError"
  using DIC_others_None[of lib "this_word s" "hwords s" "[]"]
  by (auto simp: DIC_score_def model_score_def)

lemma CV_folds_raises:
  assumes "cvf \<in> set fs"
    and "combine_sequences (fst cvf) (sequences s) = Inr (X_train, l_train)"
    and "GaussianHMM_fit lib n ''diag'' 1000 (random_state s) X_train l_train = Inl e"
  shows "\<exists>e'. CV_folds lib s n fs acc = Inl e'"
  using assms(1)
proof (induction fs arbitrary: acc)
  case Nil
  then show ?case by simp
next
  case (Cons f fs)
  obtain tr te where f: "f = (tr, te)" by (cases f)
  show ?case
  proof (cases "cvf = f")
    case True
    then show ?thesis using assms(2,3) f by simp
  next
    case False
    with Cons.prems have "cvf \<in> set fs" by simp
    from Cons.IH[OF this] show ?thesis
      using f by (auto split: sum.splits)
  qed
qed

lemma CV_score_raises:
  assumes "KFold_split (length (sequences s)) = Inr folds"
    and "cvf \<in> set folds"
    and "combine_sequences (fst cvf) (sequences s) = Inr (X_train, l_train)"
    and "GaussianHMM_fit lib n ''diag'' 1000 (random_state s) X_train l_train = Inl e"
  shows "\<exists>e'. CV_score lib s n = Inl e'"
  using CV_folds_raises[OF assms(2,3,4), of "[]"] assms(1)
  by (auto simp: CV_score_def)

text \<open>
  Claim C4, as the code has it. A fit that fails at one candidate of the search never
  leaves \<^verbatim>\<open>select\<close> as an exception, and it ends the search: for BIC and DIC
  \<^verbatim>\<open>base_model\<close> returns \<^verbatim>\<open>None\<close> and scoring it raises, for CV the fit on a fold raises
  inside \<^verbatim>\<open>score\<close>; the handler around the whole loop then returns what \<^verbatim>\<open>base_model\<close>
  gives for \<open>n_constant\<close> states, whatever the candidates before and after the failing
  one scored.
\<close>

theorem fit_failure_falls_back:
  "(k \<in> {min_n_components s..max_n_components s} \<and> base_model lib s k = None \<longrightarrow>
      select_BIC lib s = base_model lib s (n_constant s)) \<and>
   (k \<in> {min_n_components s..<max_n_components s} \<and> base_model lib s k = None \<longrightarrow>
      select_DIC lib s = base_model lib s (n_constant s)) \<and>
   (k \<in> {min_n_components s..max_n_components s} \<and>
    KFold_split (length (sequences s)) = Inr folds \<and> cvf \<in> set folds \<and>
    combine_sequences (fst cvf) (sequences s) = Inr (X_train, l_train) \<and>
    GaussianHMM_fit lib k ''diag'' 1000 (random_state s) X_train l_train = Inl e \<longrightarrow>
      select_CV lib s = base_model lib s (n_constant s))"
proof (intro conjI impI)
  assume "k \<in> {min_n_components s..max_n_components s} \<and> base_model lib s k = None"
  then have "k \<in> set (BIC_candidates s)" and "BIC_score lib s k = Inl AttributeError"
    by (simp_all add: BIC_candidates_def py_range_inclusive BIC_score_None)
  from BIC_loop_raises[OF this, of PosInf None]
  obtain e' where "BIC_loop lib s (BIC_candidates s) PosInf None = Inl e'" by auto
  then show "select_BIC lib s = base_model lib s (n_constant s)"
    by (simp add: select_BIC_def)
next
  assume "k \<in> {min_n_components s..<max_n_components s} \<and> base_model lib s k = None"
  then have "k \<in> set (DIC_candidates s)" and "DIC_score lib s k = Inl AttributeError"
    by (simp_all add: DIC_candidates_def set_py_range DIC_score_None)
  from DIC_loop_raises[OF this, of NegInf None]
  obtain e' where "DIC_loop lib s (DIC_candidates s) NegInf None = Inl e'" by auto
  then show "select_DIC lib s = base_model lib s (n_constant s)"
    by (simp add: select_DIC_def)
next
  assume a: "k \<in> {min_n_components s..max_n_components s} \<and>
    KFold_split (length (sequences s)) = Inr folds \<and> cvf \<in> set folds \<and>
    combine_sequences (fst cvf) (sequences s) = Inr (X_train, l_train) \<and>
    GaussianHMM_fit lib k ''diag'' 1000 (random_state s) X_train l_train = Inl e"
  then have k: "k \<in> set (CV_candidates s)"
    by (simp add: CV_candidates_def py_range_inclusive)
  from a CV_score_raises[of s folds cvf X_train l_train lib k e]
  obtain e' where "CV_score lib s k = Inl e'" by auto
  from CV_loop_raises[OF k this, of NegInf 3]
  obtain e'' where "CV_loop lib s (CV_candidates s) NegInf 3 = Inl e''" by auto
  then show "select_CV lib s = base_model lib s (n_constant s)"
    by (simp add: select_CV_def)
qed

theorem fit_failure_falls_back_witness:
  "select_BIC demo_lib demo_selector_wide = Some (demo_model 2) \<and>
   select_DIC demo_lib demo_selector_wide = Some (demo_model 2) \<and>
   select_CV demo_lib demo_selector_wide = Some (demo_model 2)"
proof -
  let ?s = demo_selector_wide
  have k: "6 \<in> {min_n_components ?s..max_n_components ?s}"
    "6 \<in> {min_n_components ?s..<max_n_components ?s}"
    by (simp_all add: demo_selector_wide_def demo_selector_CV_def demo_selector_def)
  have none: "base_model demo_lib ?s 6 = None" by (rule demo_base_model_6)
  have seqs: "sequences ?s = sequences demo_selector_CV"
    by (simp add: demo_selector_wide_def)
  have folds: "KFold_split (length (sequences ?s)) = Inr [([Suc 0], [0]), ([0], [Suc 0])]"
    "combine_sequences (fst ([Suc 0], [0])) (sequences ?s) = Inr ([[0]], [1])"
    by (simp_all add: seqs demo_folds)
  have cvf: "([Suc 0], [0]) \<in> set [([Suc 0], [0]), ([0], [Suc 0])]" by simp
  have fails: "GaussianHMM_fit demo_lib 6 ''diag'' 1000 (random_state ?s) [[0]] [1] = Inl HmmError"
    by (simp add: GaussianHMM_fit_def demo_lib_def)
  have fb: "base_model demo_lib ?s (n_constant ?s) = Some (demo_model 2)"
    by (simp add: demo_base_model demo_selector_wide_def demo_selector_CV_def demo_selector_def)
  from fit_failure_falls_back[of 6 ?s demo_lib "[([Suc 0], [0]), ([0], [Suc 0])]" "([Suc 0], [0])"
         "[[0]]" "[1]" HmmError]
       k none folds cvf fails fb
  show ?thesis by simp
qed

text \<open>
  Claim C4 as stated lets the search go on past a failed fit and keep the best candidate
  found. With candidates from two to seven states of which only six cannot be fitted,
  the candidate of three states has the lowest BIC, 95, and is what the search over two
  to five states returns; with the failing candidate in the range \<^verbatim>\<open>select\<close> returns the
  model of \<open>n_constant = 2\<close> states, whose BIC is 120.
\<close>

theorem fit_failure_counterexample:
  "base_model demo_lib demo_selector_fail 6 = None \<and>
   BIC_score demo_lib demo_selector_fail 2 = Inr (Fin 120, Some (demo_model 2)) \<and>
   BIC_score demo_lib demo_selector_fail 3 = Inr (Fin 95, Some (demo_model 3)) \<and>
   BIC_score demo_lib demo_selector_fail 7 = Inr (Fin 200, Some (demo_model 7)) \<and>
   select_BIC demo_lib (demo_selector_fail\<lparr>max_n_components := 5\<rparr>) = Some (demo_model 3) \<and>
   select_BIC demo_lib demo_selector_fail = Some (demo_model 2)"
proof -
  let ?s = demo_selector_fail
  have s: "random_state ?s = 14" "self_X ?s = [[0]]" "n_constant ?s = 2"
    "random_state (?s\<lparr>max_n_components := 5\<rparr>) = 14" "self_X (?s\<lparr>max_n_components := 5\<rparr>) = [[0]]"
    "BIC_candidates ?s = [2, 3, 4, 5, 6, 7]"
    "BIC_candidates (?s\<lparr>max_n_components := 5\<rparr>) = [2, 3, 4, 5]"
    by (simp_all add: demo_selector_fail_def demo_selector_def BIC_candidates_def py_range_def)
  have six: "BIC_score demo_lib ?s 6 = Inl AttributeError"
    by (simp add: BIC_score_None demo_base_model_6)
  show ?thesis
    by (simp add: select_BIC_def s six demo_BIC_score demo_base_model demo_base_model_6
        demo_logL_def)
qed

section \<open>The number of states of the selected model\<close>

lemma BIC_score_Some:
  "BIC_score lib s n = Inr (v, Some m) \<Longrightarrow> n_components m = n"
  by (auto simp: BIC_score_def Let_def split: sum.splits list.splits dest: base_model_Some)

lemma DIC_score_Some:
  "DIC_score lib s n = Inr (v, Some m) \<Longrightarrow> n_components m = n"
  by (auto simp: DIC_score_def Let_def split: sum.splits dest: base_model_Some)

lemma BIC_loop_result:
  "BIC_loop lib s ns bs bm = Inr (Some m) \<Longrightarrow> bm = Some m \<or> n_components m \<in> set ns"
proof (induction ns arbitrary: bs bm)
  case Nil
  then show ?case by simp
next
  case (Cons n ns)
  from Cons.prems obtain v mo where sc: "BIC_score lib s n = Inr (v, mo)"
    by (auto split: sum.splits)
  show ?case
  proof (cases "fless v bs")
    case True
    with Cons.prems sc have "BIC_loop lib s ns v mo = Inr (Some m)" by simp
    from Cons.IH[OF this] show ?thesis using sc BIC_score_Some by fastforce
  next
    case False
    with Cons.prems sc have "BIC_loop lib s ns bs bm = Inr (Some m)" by simp
    from Cons.IH[OF this] show ?thesis by auto
  qed
qed

lemma DIC_loop_result:
  "DIC_loop lib s ns bs bm = Inr (Some m) \<Longrightarrow> bm = Some m \<or> n_components m \<in> set ns"
proof (induction ns arbitrary: bs bm)
  case Nil
  then show ?case by simp
next
  case (Cons n ns)
  from Cons.prems obtain v mo where sc: "DIC_score lib s n = Inr (v, mo)"
    by (auto split: sum.splits)
  show ?case
  proof (cases "fgreater v bs")
    case True
    with Cons.prems sc have "DIC_loop lib s ns v mo = Inr (Some m)" by simp
    from Cons.IH[OF this] show ?thesis using sc DIC_score_Some by fastforce
  next
    case False
    with Cons.prems sc have "DIC_loop lib s ns bs bm = Inr (Some m)" by simp
    from Cons.IH[OF this] show ?thesis by auto
  qed
qed

lemma CV_loop_result:
  "CV_loop lib s ns bs b = Inr k \<Longrightarrow> k = b \<or> k \<in> set ns"
proof (induction ns arbitrary: bs b)
  case Nil
  then show ?case by simp
next
  case (Cons n ns)
  from Cons.prems obtain v where sc: "CV_score lib s n = Inr v"
    by (auto split: sum.splits)
  show ?case
  proof (cases "fgreater v bs")
    case True
    with Cons.prems sc have "CV_loop lib s ns v n = Inr k" by simp
    from Cons.IH[OF this] show ?thesis by auto
  next
    case False
    with Cons.prems sc have "CV_loop lib s ns bs b = Inr k" by simp
    from Cons.IH[OF this] show ?thesis by auto
  qed
qed

text \<open>
  Claim C7, as the code has it. The base class returns \<^verbatim>\<open>None\<close>. A model returned by the
  Constant strategy has \<open>n_constant\<close> states; one returned by BIC or DIC has a number of
  states in the range from \<open>min_n_components\<close> to \<open>max_n_components\<close> or, on the fallback
  path, \<open>n_constant\<close> states; one returned by CV has a number of states in that range,
  \<open>n_constant\<close> states, or 3 states, the initial value of \<^verbatim>\<open>best_states\<close>, which stays when
  no candidate's score exceeds minus infinity.
\<close>

theorem select_state_count:
  "select_ModelSelector lib s = None \<and>
   (select_Constant lib s = Some m \<longrightarrow> n_components m = n_constant s) \<and>
   (select_BIC lib s = Some m \<longrightarrow>
      n_components m \<in> {min_n_components s..max_n_components s} \<or>
      n_components m = n_constant s) \<and>
   (select_DIC lib s = Some m \<longrightarrow>
      n_components m \<in> {min_n_components s..max_n_components s} \<or>
      n_components m = n_constant s) \<and>
   (select_CV lib s = Some m \<longrightarrow>
      n_components m \<in> {min_n_components s..max_n_components s} \<or>
      n_components m = n_constant s \<or> n_components m = 3)"
proof (intro conjI impI)
  show "select_ModelSelector lib s = None" by (simp add: select_ModelSelector_def)
next
  assume "select_Constant lib s = Some m"
  then show "n_components m = n_constant s"
    by (auto simp: select_Constant_def dest: base_model_Some)
next
  assume a: "select_BIC lib s = Some m"
  show "n_components m \<in> {min_n_components s..max_n_components s} \<or>
      n_components m = n_constant s"
  proof (cases "BIC_loop lib s (BIC_candidates s) PosInf None")
    case (Inl e)
    with a have "base_model lib s (n_constant s) = Some m" by (simp add: select_BIC_def)
    then show ?thesis using base_model_Some by blast
  next
    case (Inr r)
    with a have "BIC_loop lib s (BIC_candidates s) PosInf None = Inr (Some m)"
      by (simp add: select_BIC_def)
    from BIC_loop_result[OF this] show ?thesis
      by (simp add: BIC_candidates_def py_range_inclusive)
  qed
next
  assume a: "select_DIC lib s = Some m"
  show "n_components m \<in> {min_n_components s..max_n_components s} \<or>
      n_components m = n_constant s"
  proof (cases "DIC_loop lib s (DIC_candidates s) NegInf None")
    case (Inl e)
    with a have "base_model lib s (n_constant s) = Some m" by (simp add: select_DIC_def)
    then show ?thesis using base_model_Some by blast
  next
    case (Inr r)
    with a have "DIC_loop lib s (DIC_candidates s) NegInf None = Inr (Some m)"
      by (simp add: select_DIC_def)
    from DIC_loop_result[OF this] show ?thesis
      by (simp add: DIC_candidates_def set_py_range)
  qed
next
  assume a: "select_CV lib s = Some m"
  show "n_components m \<in> {min_n_components s..max_n_components s} \<or>
      n_components m = n_constant s \<or> n_components m = 3"
  proof (cases "CV_loop lib s (CV_candidates s) NegInf 3")
    case (Inl e)
    with a have "base_model lib s (n_constant s) = Some m" by (simp add: select_CV_def)
    then show ?thesis using base_model_Some by blast
  next
    case (Inr k)
    with a have "base_model lib s k = Some m" by (simp add: select_CV_def)
    then have "n_components m = k" using base_model_Some by blast
    moreover from CV_loop_result[OF Inr] have "k = 3 \<or> k \<in> {min_n_components s..max_n_components s}"
      by (simp add: CV_candidates_def py_range_inclusive)
    ultimately show ?thesis by auto
  qed
qed

lemma demo_select_Constant: "select_Constant demo_lib demo_selector = Some (demo_model 3)"
  by (simp add: select_Constant_def demo_base_model demo_selector_def)

lemma demo_select_BIC: "select_BIC demo_lib demo_selector = Some (demo_model 3)"
proof -
  have s: "random_state demo_selector = 14" "self_X demo_selector = [[0]]"
    "BIC_candidates demo_selector = [2, 3, 4]"
    by (simp_all add: demo_selector_def BIC_candidates_def py_range_def)
  show ?thesis
    by (simp add: select_BIC_def s demo_BIC_score demo_logL_def)
qed

lemma demo_DIC_score:
  assumes "n \<noteq> 6" and "n \<noteq> 8"
  shows "DIC_score demo_lib demo_selector n = Inr (Fin (real_of_int n), Some (demo_model n))"
proof -
  let ?s = demo_selector
  have s: "self_X ?s = [[0]]" "self_lengths ?s = [1]" "random_state ?s = 14"
    "hwords ?s = [(''WORD1'', [[0]], [1]), (''WORD2'', [[- 1]], [1])]" "this_word ?s = ''WORD1''"
    by (simp_all add: demo_selector_def)
  have ow: "other_words ?s = [(''WORD2'', [[- 1]], [1])]" by (simp add: other_words_def s)
  have "DIC_score demo_lib ?s n =
      Inr (DIC_criterion demo_lib (Fin (demo_logL n))
             (map (\<lambda>e. Fin (demo_logL n - real_of_int n)) (other_words ?s)), Some (demo_model n))"
    using assms demo_hmm_score[of n 0 "[1]"] demo_hmm_score[of n "- 1" "[1]"]
    by (intro DIC_score_value) (simp_all add: s demo_base_model)
  then show ?thesis by (simp add: ow demo_DIC_criterion_one)
qed

lemma demo_select_DIC: "select_DIC demo_lib demo_selector = Some (demo_model 3)"
proof -
  have s: "DIC_candidates demo_selector = [2, 3]"
    by (simp add: demo_selector_def DIC_candidates_def py_range_def)
  show ?thesis
    by (simp add: select_DIC_def s demo_DIC_score fgreater_def)
qed

lemma demo_select_CV_empty: "select_CV demo_lib demo_selector_CV_empty = Some (demo_model 3)"
  by (simp add: select_CV_empty_range demo_base_model demo_selector_CV_empty_def
      demo_selector_CV_def demo_selector_def)

theorem select_state_count_witness:
  "select_Constant demo_lib demo_selector = Some (demo_model 3) \<and>
   select_BIC demo_lib demo_selector = Some (demo_model 3) \<and>
   select_DIC demo_lib demo_selector = Some (demo_model 3) \<and>
   select_CV demo_lib demo_selector_CV_empty = Some (demo_model 3) \<and>
   n_components (demo_model 3) = n_constant demo_selector \<and>
   n_components (demo_model 3) \<in> {min_n_components demo_selector..max_n_components demo_selector} \<and>
   n_components (demo_model 3) = 3"
  using select_state_count[of demo_lib demo_selector "demo_model 3"]
    select_state_count[of demo_lib demo_selector_CV_empty "demo_model 3"]
    demo_select_Constant demo_select_BIC demo_select_DIC demo_select_CV_empty
  by (simp add: demo_model_def demo_selector_def)

text \<open>
  Claim C7 as stated leaves the model of CV in the range or at \<open>n_constant\<close> states: with
  the empty range from five to four and \<open>n_constant = 7\<close> the loop never runs and the
  model returned has 3 states.
\<close>

theorem select_state_count_counterexample:
  "select_CV demo_lib demo_selector_CV_empty = Some (demo_model 3) \<and>
   n_components (demo_model 3) = 3 \<and>
   min_n_components demo_selector_CV_empty = 5 \<and>
   max_n_components demo_selector_CV_empty = 4 \<and>
   n_constant demo_selector_CV_empty = 7"
proof -
  have "n_components (demo_model 3) = 3" by (simp add: demo_model_def)
  moreover have "min_n_components demo_selector_CV_empty = 5"
    "max_n_components demo_selector_CV_empty = 4" "n_constant demo_selector_CV_empty = 7"
    by (simp_all add: demo_selector_CV_empty_def)
  ultimately show ?thesis using demo_select_CV_empty by simp
qed

end
